theory Spec2Isabelle
  imports Main
begin

section \<open>Text\<close>

text \<open>
  File contents and names are Python \<open>str\<close> values. They are modelled as
  \<^typ>\<open>string\<close>, one \<^typ>\<open>char\<close> per code point, which covers the code points
  below 256. On that range the letters of the ASCII words the program looks for
  (\<open>host\<close>, \<open>port\<close>, \<open>localhost\<close>, ...) have no case variant besides their ASCII one.
\<close>

definition ascii_upper :: string where
  "ascii_upper = ''ABCDEFGHIJKLMNOPQRSTUVWXYZ''"

definition ascii_lower :: string where
  "ascii_lower = ''abcdefghijklmnopqrstuvwxyz''"

definition lower_char :: "char \<Rightarrow> char" where
  "lower_char c = (case map_of (zip ascii_upper ascii_lower) c of Some d \<Rightarrow> d | None \<Rightarrow> c)"

text \<open>\<open>str.lower()\<close>; letters outside ASCII are left as they are, which no test
  against an ASCII word can observe.\<close>

definition lower :: "string \<Rightarrow> string" where
  "lower s = map lower_char s"

text \<open>The character classes \<open>\d\<close> and \<open>\s\<close> of \<open>re\<close> on \<open>str\<close> patterns.\<close>

definition is_digit :: "char \<Rightarrow> bool" where
  "is_digit c = (c \<in> set ''0123456789'')"

definition is_space :: "char \<Rightarrow> bool" where
  "is_space c = (c \<in> set [CHR '' '', CHR 0x09, CHR 0x0A, CHR 0x0B, CHR 0x0C, CHR 0x0D,
     CHR 0x1C, CHR 0x1D, CHR 0x1E, CHR 0x1F, CHR 0x85, CHR 0xA0])"

text \<open>\<open>s.startswith(p)\<close>, \<open>s.endswith(p)\<close> and \<open>p in s\<close>.\<close>

fun startswith :: "string \<Rightarrow> string \<Rightarrow> bool" where
  "startswith s [] = True"
| "startswith [] (p # ps) = False"
| "startswith (c # cs) (p # ps) = (c = p \<and> startswith cs ps)"

definition endswith :: "string \<Rightarrow> string \<Rightarrow> bool" where
  "endswith s p = startswith (rev s) (rev p)"

fun contains :: "string \<Rightarrow> string \<Rightarrow> bool" where
  "contains [] p = (p = [])"
| "contains (c # cs) p = (startswith (c # cs) p \<or> contains cs p)"

text \<open>A literal pattern at the head of the text under \<open>re.IGNORECASE\<close>.\<close>

fun ci_prefix :: "string \<Rightarrow> string \<Rightarrow> bool" where
  "ci_prefix [] s = True"
| "ci_prefix (p # ps) [] = False"
| "ci_prefix (p # ps) (c # cs) = (lower_char p = lower_char c \<and> ci_prefix ps cs)"

text \<open>\<open>int(ds)\<close> for a run of digits.\<close>

definition digit_val :: "char \<Rightarrow> nat" where
  "digit_val c = of_char c - 48"

definition int_of_digits :: "string \<Rightarrow> nat" where
  "int_of_digits ds = foldl (\<lambda>n c. 10 * n + digit_val c) 0 ds"

section \<open>The project tree\<close>

text \<open>
  The project directory is the list of its entries in listing order. A file carries its
  name, its text and the size \<open>os.path.getsize\<close> reports for it; a directory its name
  and its entries.
\<close>

datatype node =
    File (name: string) (content: string) (fsize: nat)
  | Dir (name: string) (entries: "node list")

type_synonym tree = "node list"

datatype exn =
    FileNotFoundError | IsADirectoryError | NotADirectoryError
  | TypeError | AttributeError | JSONDecodeError

definition lookup :: "tree \<Rightarrow> string \<Rightarrow> node option" where
  "lookup t n = find (\<lambda>x. name x = n) t"

text \<open>\<open>os.path.exists(os.path.join(project_dir, n))\<close> for an entry \<open>n\<close> of the
  project directory.\<close>

definition exists :: "tree \<Rightarrow> string \<Rightarrow> bool" where
  "exists t n = (lookup t n \<noteq> None)"

text \<open>\<open>open(path, 'r').read()\<close>; a directory cannot be opened.\<close>

definition read_file :: "tree \<Rightarrow> string \<Rightarrow> exn + string" where
  "read_file t n =
     (case lookup t n of
        None \<Rightarrow> Inl FileNotFoundError
      | Some (Dir d es) \<Rightarrow> Inl IsADirectoryError
      | Some (File f c z) \<Rightarrow> Inr c)"

text \<open>\<open>open(path, 'w').write(c)\<close>: an existing file is overwritten in place, a
  missing one is created, a directory cannot be opened.\<close>

definition write_file :: "tree \<Rightarrow> string \<Rightarrow> string \<Rightarrow> exn + tree" where
  "write_file t n c =
     (case lookup t n of
        None \<Rightarrow> Inr (t @ [File n c (length c)])
      | Some (Dir d es) \<Rightarrow> Inl IsADirectoryError
      | Some (File f c0 z) \<Rightarrow> Inr (map (\<lambda>x. if name x = n then File n c (length c) else x) t))"

text \<open>\<open>os.path.join\<close> on paths relative to the project directory, which is the
  empty path, and \<open>os.path.basename\<close>.\<close>

definition pjoin :: "string \<Rightarrow> string \<Rightarrow> string" where
  "pjoin p n = (if p = [] then n else p @ ''/'' @ n)"

definition basename :: "string \<Rightarrow> string" where
  "basename p = rev (takeWhile (\<lambda>c. c \<noteq> CHR ''/'') (rev p))"

text \<open>
  \<open>os.walk\<close>, top down: the files of a directory in listing order, then its
  subdirectories one after the other, those excepted that the caller removes from
  \<open>dirs\<close>. Each file comes with the directory it is in and its path, both relative to
  the project directory.
\<close>

fun walk :: "(string \<Rightarrow> bool) \<Rightarrow> string \<Rightarrow> tree \<Rightarrow> (string \<times> node) list"
  and walk_dirs :: "(string \<Rightarrow> bool) \<Rightarrow> string \<Rightarrow> tree \<Rightarrow> (string \<times> node) list" where
  "walk keep p es = map (\<lambda>x. (p, x)) (filter is_File es) @ walk_dirs keep p es"
| "walk_dirs keep p [] = []"
| "walk_dirs keep p (File f c z # es) = walk_dirs keep p es"
| "walk_dirs keep p (Dir d sub # es) =
     (if keep d then walk keep (pjoin p d) sub else []) @ walk_dirs keep p es"

section \<open>ProjectAnalyzer: port hints\<close>

text \<open>
  The four patterns of \<open>_detect_port_config\<close> are a keyword followed by \<open>.*?(\d+)\<close>:
  after the keyword the lazy \<open>.*?\<close> stops at the first digit, and gives up at a
  line feed, which \<open>.\<close> does not match; \<open>\d+\<close> then takes the whole run of digits.
\<close>

fun lazy_to_digits :: "string \<Rightarrow> (string \<times> string) option" where
  "lazy_to_digits [] = None"
| "lazy_to_digits (c # cs) =
     (if is_digit c then Some (takeWhile is_digit (c # cs), dropWhile is_digit (c # cs))
      else if c = CHR 0x0A then None
      else lazy_to_digits cs)"

definition match_kw :: "string \<Rightarrow> string \<Rightarrow> (string \<times> string) option" where
  "match_kw k s = (if ci_prefix k s then lazy_to_digits (drop (length k) s) else None)"

lemma lazy_to_digits_shorter:
  "lazy_to_digits s = Some (ds, rest) \<Longrightarrow> length rest < length s"
proof (induction s)
  case Nil
  then show ?case by simp
next
  case (Cons c cs)
  show ?case
  proof (cases "is_digit c")
    case True
    with Cons.prems have "rest = dropWhile is_digit cs" by simp
    then show ?thesis by (simp add: length_dropWhile_le le_imp_less_Suc)
  next
    case False
    with Cons.prems have "lazy_to_digits cs = Some (ds, rest)"
      by (simp split: if_splits)
    with Cons.IH show ?thesis by fastforce
  qed
qed

lemma match_kw_shorter:
  "match_kw k s = Some (ds, rest) \<Longrightarrow> length rest < length s"
  unfolding match_kw_def
  by (auto split: if_splits dest!: lazy_to_digits_shorter)

text \<open>\<open>re.findall(pattern, content, re.IGNORECASE)\<close>: the groups of the successive
  matches, each search starting where the last match ended.\<close>

function findall_kw :: "string \<Rightarrow> string \<Rightarrow> string list" where
  "findall_kw k [] = []"
| "findall_kw k (c # cs) =
     (case match_kw k (c # cs) of
        Some (ds, rest) \<Rightarrow> ds # findall_kw k rest
      | None \<Rightarrow> findall_kw k cs)"
  by pat_completeness auto
termination
  by (relation "measure (\<lambda>(k, s). length s)") (auto dest: match_kw_shorter)

declare findall_kw.simps [simp del]

definition port_patterns :: "string list" where
  "port_patterns = [''port'', ''PORT'', ''listen'', ''server'']"

definition port_main_files :: "string list" where
  "port_main_files = [''app.py'', ''main.py'', ''server.js'', ''index.js'', ''app.js'']"

definition valid_port :: "nat \<Rightarrow> bool" where
  "valid_port port = (1000 \<le> port \<and> port \<le> 65535)"

definition ports_in :: "string \<Rightarrow> nat list" where
  "ports_in c =
     concat (map (\<lambda>k. filter valid_port (map int_of_digits (findall_kw k c))) port_patterns)"

text \<open>\<open>list(set(detected_ports))\<close> is a list without repetition; its order is not
  fixed by the program and \<open>remdups\<close> picks one.\<close>

definition detect_port_config :: "tree \<Rightarrow> nat list option" where
  "detect_port_config t =
     (let detected_ports =
        concat (map (\<lambda>f. case read_file t f of Inr c \<Rightarrow> ports_in c | Inl e \<Rightarrow> [])
                    (filter (exists t) port_main_files))
      in if detected_ports = [] then None else Some (remdups detected_ports))"

section \<open>JSON documents\<close>

text \<open>
  The value \<open>json.load\<close> returns: an object is a \<open>dict\<close>, kept as the list of its
  items in insertion order. \<open>json.load\<close> and \<open>json.dump\<close> belong to the Python
  library; the functions below take them as the parameters \<open>loads\<close> (\<open>None\<close> where
  \<open>json.load\<close> raises) and \<open>dumps\<close>.
\<close>

datatype json =
    JNull | JBool bool | JNum int | JStr string
  | JArr "json list" | JObj "(string \<times> json) list"

type_synonym dict = "(string \<times> json) list"

text \<open>\<open>k in d\<close>, \<open>d.get(k, default)\<close>, \<open>d[k] = v\<close> and \<open>{**a, **b}\<close>.\<close>

definition dict_has :: "dict \<Rightarrow> string \<Rightarrow> bool" where
  "dict_has d k = (k \<in> set (map fst d))"

definition dict_get :: "dict \<Rightarrow> string \<Rightarrow> json \<Rightarrow> json" where
  "dict_get d k dflt = (case map_of d k of Some v \<Rightarrow> v | None \<Rightarrow> dflt)"

fun dict_set :: "dict \<Rightarrow> string \<Rightarrow> json \<Rightarrow> dict" where
  "dict_set [] k v = [(k, v)]"
| "dict_set ((k', v') # d) k v =
     (if k' = k then (k, v) # d else (k', v') # dict_set d k v)"

definition dict_merge :: "dict \<Rightarrow> dict \<Rightarrow> dict" where
  "dict_merge a b = foldl (\<lambda>d (k, v). dict_set d k v) a b"

section \<open>ProjectAnalyzer: the project type\<close>

record ptype =
  primary :: string
  technologies :: "string list"
  frameworks :: "string list"

text \<open>The \<open>try\<close> block that reads \<open>package.json\<close>: \<open>open\<close>, then \<open>json.load\<close>.\<close>

definition load_package :: "(string \<Rightarrow> json option) \<Rightarrow> tree \<Rightarrow> exn + json" where
  "load_package loads t =
     (case read_file t ''package.json'' of
        Inl e \<Rightarrow> Inl e
      | Inr c \<Rightarrow> (case loads c of None \<Rightarrow> Inl JSONDecodeError | Some j \<Rightarrow> Inr j))"

text \<open>
  \<open>{**package_data.get("dependencies", {}), **package_data.get("devDependencies", {})}\<close>:
  only a \<open>dict\<close> has \<open>get\<close>, and only a \<open>dict\<close> can be unpacked with \<open>**\<close>.
\<close>

definition package_dependencies :: "json \<Rightarrow> exn + dict" where
  "package_dependencies package_data =
     (case package_data of
        JObj d \<Rightarrow>
          (case dict_get d ''dependencies'' (JObj []) of
             JObj a \<Rightarrow>
               (case dict_get d ''devDependencies'' (JObj []) of
                  JObj b \<Rightarrow> Inr (dict_merge a b)
                | _ \<Rightarrow> Inl TypeError)
           | _ \<Rightarrow> Inl TypeError)
      | _ \<Rightarrow> Inl AttributeError)"

definition nodejs_frameworks :: "dict \<Rightarrow> string list" where
  "nodejs_frameworks dependencies =
     (if dict_has dependencies ''express'' then [''express''] else [])
     @ (if dict_has dependencies ''react'' then [''react''] else [])
     @ (if dict_has dependencies ''vue'' then [''vue''] else [])
     @ (if dict_has dependencies ''angular'' then [''angular''] else [])
     @ (if dict_has dependencies ''next'' \<or> dict_has dependencies ''nextjs''
        then [''nextjs''] else [])"

text \<open>The frameworks found in \<open>package.json\<close>; any exception of the \<open>try\<close> block
  is caught and leaves the list as it was.\<close>

definition package_frameworks :: "(string \<Rightarrow> json option) \<Rightarrow> tree \<Rightarrow> string list" where
  "package_frameworks loads t =
     (case load_package loads t of
        Inl e \<Rightarrow> []
      | Inr package_data \<Rightarrow>
          (case package_dependencies package_data of
             Inl e \<Rightarrow> []
           | Inr dependencies \<Rightarrow> nodejs_frameworks dependencies))"

definition python_frameworks :: "string \<Rightarrow> string list" where
  "python_frameworks requirements =
     (if contains requirements ''django'' then [''django''] else [])
     @ (if contains requirements ''flask'' then [''flask''] else [])
     @ (if contains requirements ''fastapi'' then [''fastapi''] else [])
     @ (if contains requirements ''streamlit'' then [''streamlit''] else [])"

definition requirements_frameworks :: "tree \<Rightarrow> string list" where
  "requirements_frameworks t =
     (if exists t ''requirements.txt'' then
        (case read_file t ''requirements.txt'' of
           Inl e \<Rightarrow> []
         | Inr c \<Rightarrow> python_frameworks (lower c))
      else [])"

text \<open>\<open>any(f.endswith(ext) for f in os.listdir(project_dir) if os.path.isfile(...))\<close>.\<close>

definition loose_file :: "tree \<Rightarrow> string \<Rightarrow> bool" where
  "loose_file t ext = list_ex (\<lambda>x. endswith (name x) ext) (filter is_File t)"

text \<open>The condition under which each block of \<open>_detect_project_type\<close> runs.\<close>

definition has_nodejs :: "tree \<Rightarrow> bool" where
  "has_nodejs t = exists t ''package.json''"

definition has_python :: "tree \<Rightarrow> bool" where
  "has_python t =
     (exists t ''requirements.txt'' \<or> exists t ''setup.py'' \<or> exists t ''pyproject.toml'')"

definition has_php :: "tree \<Rightarrow> bool" where
  "has_php t = (exists t ''composer.json'' \<or> loose_file t ''.php'')"

definition has_go :: "tree \<Rightarrow> bool" where
  "has_go t = (exists t ''go.mod'' \<or> exists t ''go.sum'')"

definition has_ruby :: "tree \<Rightarrow> bool" where
  "has_ruby t = exists t ''Gemfile''"

definition has_static :: "tree \<Rightarrow> bool" where
  "has_static t = loose_file t ''.html''"

text \<open>\<open>if project_type["primary"] == "unknown": project_type["primary"] = s\<close>,
  followed by \<open>project_type["technologies"].append(tech)\<close>.\<close>

definition claim :: "string \<Rightarrow> string \<Rightarrow> ptype \<Rightarrow> ptype" where
  "claim s tech pt =
     pt\<lparr>primary := (if primary pt = ''unknown'' then s else primary pt),
        technologies := technologies pt @ [tech]\<rparr>"

definition detect_project_type :: "(string \<Rightarrow> json option) \<Rightarrow> tree \<Rightarrow> ptype" where
  "detect_project_type loads t =
     (let pt = \<lparr>primary = ''unknown'', technologies = [], frameworks = []\<rparr>;
          pt = (if has_nodejs t then
                  pt\<lparr>primary := ''nodejs'',
                     technologies := technologies pt @ [''javascript''],
                     frameworks := frameworks pt @ package_frameworks loads t\<rparr>
                else pt);
          pt = (if has_python t then
                  (let pt = claim ''python'' ''python'' pt
                   in pt\<lparr>frameworks := frameworks pt @ requirements_frameworks t\<rparr>)
                else pt);
          pt = (if has_php t then claim ''php'' ''php'' pt else pt);
          pt = (if has_go t then claim ''go'' ''go'' pt else pt);
          pt = (if has_ruby t then claim ''ruby'' ''ruby'' pt else pt);
          pt = (if has_static t then claim ''static'' ''html'' pt else pt)
      in pt)"

section \<open>ProjectAnalyzer: potential issues\<close>

record issue =
  issue_type :: string
  severity :: string
  description :: string

text \<open>
  The part of the analysis result that the issue detector and the fix engine read:
  \<open>project_type\<close>, \<open>structure.important_files\<close>, \<open>configuration.environment_files\<close>
  and \<open>potential_issues\<close>.
\<close>

record analysis =
  project_type :: ptype
  important_files :: "string list"
  environment_files :: "string list"
  potential_issues :: "issue list"

definition hardcoded_patterns :: "(string \<times> string) list" where
  "hardcoded_patterns =
     [(''localhost'', ''Hardcoded localhost references found''),
      (''127.0.0.1'', ''Hardcoded local IP addresses found''),
      (''password'', ''Potential hardcoded passwords found''),
      (''secret'', ''Potential hardcoded secrets found'')]"

definition scanned_extensions :: "string list" where
  "scanned_extensions = [''.py'', ''.js'', ''.json'', ''.yml'', ''.yaml'']"

text \<open>The body of the scan for one file of the walk: the first pattern found in the
  lowered text is reported, and only that one.\<close>

definition hardcoded_issue :: "string \<times> node \<Rightarrow> issue list" where
  "hardcoded_issue e =
     (case e of (p, x) \<Rightarrow>
        if list_ex (endswith (name x)) scanned_extensions then
          (case find (\<lambda>(pattern, d). contains (lower (content x)) pattern) hardcoded_patterns of
             None \<Rightarrow> []
           | Some (pattern, d) \<Rightarrow>
               [\<lparr>issue_type = ''hardcoded_config'', severity = ''medium'',
                 description = d @ '' in '' @ pjoin p (name x)\<rparr>])
        else [])"

text \<open>\<open>', '.join(xs)\<close>.\<close>

fun join :: "string \<Rightarrow> string list \<Rightarrow> string" where
  "join sep [] = []"
| "join sep [x] = x"
| "join sep (x # y # ys) = x @ sep @ join sep (y # ys)"

text \<open>
  \<open>_identify_potential_issues\<close> reads \<open>self.analysis_result\<close>. \<open>analyze\<close> calls it
  while it builds the new result, before that result is assigned, so what is read is the
  result the analyzer held before: \<open>None\<close> for the empty dictionary of a new analyzer,
  the result of the earlier call otherwise.
\<close>

definition missing_file_issues :: "analysis option \<Rightarrow> issue list" where
  "missing_file_issues analysis_result =
     (let prim = map_option (\<lambda>a. primary (project_type a)) analysis_result;
          important = (case analysis_result of None \<Rightarrow> [] | Some a \<Rightarrow> important_files a)
      in if prim = Some ''nodejs'' then
           (if ''package.json'' \<notin> set (map basename important) then
              [\<lparr>issue_type = ''missing_file'', severity = ''high'',
                description = ''Missing package.json file for Node.js project''\<rparr>]
            else [])
         else if prim = Some ''python'' then
           (if \<not> list_ex (\<lambda>f. contains f ''requirements.txt'') important
               \<and> \<not> list_ex (\<lambda>f. contains f ''setup.py'') important then
              [\<lparr>issue_type = ''missing_file'', severity = ''medium'',
                description = ''Missing requirements.txt or setup.py for Python project''\<rparr>]
            else [])
         else [])"

definition hardcoded_config_issues :: "tree \<Rightarrow> issue list" where
  "hardcoded_config_issues t = concat (map hardcoded_issue (walk (\<lambda>d. True) [] t))"

definition missing_env_issues :: "analysis option \<Rightarrow> issue list" where
  "missing_env_issues analysis_result =
     (let important = (case analysis_result of None \<Rightarrow> [] | Some a \<Rightarrow> important_files a);
          env_files = filter (\<lambda>f. contains f ''.env'') important
      in if env_files = [] then
           [\<lparr>issue_type = ''missing_env'', severity = ''low'',
             description = ''No environment configuration files found''\<rparr>]
         else [])"

definition large_files_issues :: "tree \<Rightarrow> issue list" where
  "large_files_issues t =
     (let large_files =
            map (\<lambda>(p, x). pjoin p (name x))
                (filter (\<lambda>(p, x). fsize x > 100 * 1024 * 1024) (walk (\<lambda>d. True) [] t))
      in if large_files \<noteq> [] then
           [\<lparr>issue_type = ''large_files'', severity = ''medium'',
             description = ''Large files found that may cause deployment issues: ''
                           @ join '', '' (take 5 large_files)\<rparr>]
         else [])"

text \<open>The four checks of \<open>_identify_potential_issues\<close>, in the order in which they
  append to \<open>issues\<close>.\<close>

definition identify_potential_issues :: "analysis option \<Rightarrow> tree \<Rightarrow> issue list" where
  "identify_potential_issues analysis_result t =
     missing_file_issues analysis_result
     @ hardcoded_config_issues t
     @ missing_env_issues analysis_result
     @ large_files_issues t"

section \<open>Regular expressions\<close>

text \<open>
  A pattern is modelled by its matcher: tried at the head of a text, it gives the
  replacement for the match and the text after the match, or \<open>None\<close>. The patterns
  of the fix engine leave the regular expression engine no choice (each repetition is
  followed by a character it cannot take), so every matcher is a function. No pattern
  matches the empty string.
\<close>

type_synonym matcher = "string \<Rightarrow> (string \<times> string) option"

text \<open>\<open>re.search(pattern, content)\<close>.\<close>

fun re_search :: "matcher \<Rightarrow> string \<Rightarrow> bool" where
  "re_search m [] = False"
| "re_search m (c # cs) = (m (c # cs) \<noteq> None \<or> re_search m cs)"

text \<open>\<open>re.sub(pattern, replacement, content)\<close>: the matches are replaced from left
  to right, each search starting where the last match ended. The test on the length
  holds for every matcher below, whose matches take at least one character.\<close>

function re_sub :: "matcher \<Rightarrow> string \<Rightarrow> string" where
  "re_sub m [] = []"
| "re_sub m (c # cs) =
     (case m (c # cs) of
        None \<Rightarrow> c # re_sub m cs
      | Some (r, rest) \<Rightarrow>
          if length rest \<le> length cs then r @ re_sub m rest else c # re_sub m cs)"
  by pat_completeness auto
termination
  by (relation "measure (\<lambda>(m, s). length s)") auto

declare re_sub.simps [simp del]

text \<open>The pieces of a pattern: a literal, a literal under \<open>re.IGNORECASE\<close>, \<open>\s*\<close>,
  a character class, an optional character class and \<open>(\d+)\<close>.\<close>

definition lit :: "string \<Rightarrow> string \<Rightarrow> string option" where
  "lit p s = (if startswith s p then Some (drop (length p) s) else None)"

definition ci_lit :: "string \<Rightarrow> string \<Rightarrow> string option" where
  "ci_lit p s = (if ci_prefix p s then Some (drop (length p) s) else None)"

definition spaces :: "string \<Rightarrow> string" where
  "spaces s = dropWhile is_space s"

definition one_of :: "string \<Rightarrow> string \<Rightarrow> string option" where
  "one_of cs s = (case s of [] \<Rightarrow> None | c # r \<Rightarrow> if c \<in> set cs then Some r else None)"

definition opt_one_of :: "string \<Rightarrow> string \<Rightarrow> string" where
  "opt_one_of cs s = (case one_of cs s of None \<Rightarrow> s | Some r \<Rightarrow> r)"

definition digits1 :: "string \<Rightarrow> (string \<times> string) option" where
  "digits1 s =
     (if takeWhile is_digit s = [] then None
      else Some (takeWhile is_digit s, dropWhile is_digit s))"

definition quotes :: string where
  \<open>quotes = ''\'"''\<close>

text \<open>A pattern without metacharacters, and \<open>content.replace(old, new)\<close>.\<close>

definition literal :: "string \<Rightarrow> string \<Rightarrow> matcher" where
  "literal p r s = map_option (\<lambda>rest. (r, rest)) (lit p s)"

definition replace :: "string \<Rightarrow> string \<Rightarrow> string \<Rightarrow> string" where
  "replace old new s = re_sub (literal old new) s"

text \<open>\<open>if re.search(pattern, content): content = re.sub(pattern, ..., content)\<close>.\<close>

definition sub_if_found :: "matcher \<Rightarrow> string \<Rightarrow> string" where
  "sub_if_found m c = (if re_search m c then re_sub m c else c)"

text \<open>The loop over a list of patterns that stops at the first one found:
  \<open>for pattern, replacement in patterns: if re.search(...): content = re.sub(...); break\<close>.\<close>

fun first_sub :: "matcher list \<Rightarrow> string \<Rightarrow> string option" where
  "first_sub [] c = None"
| "first_sub (m # ms) c = (if re_search m c then Some (re_sub m c) else first_sub ms c)"

section \<open>FixEngine: the rewriting rules\<close>

text \<open>
  \<open>\.listen\(\s*(\d+)\s*\)\<close> and
  \<open>\.listen\(\s*process\.env\.PORT\s*\|\|\s*(\d+)\s*\)\<close>, both replaced by
  \<open>.listen(process.env.PORT || \1, "0.0.0.0")\<close>.
\<close>

definition listen_call :: "string \<Rightarrow> string" where
  \<open>listen_call ds = ''.listen(process.env.PORT || '' @ ds @ '', "0.0.0.0")''\<close>

definition listen_bare :: matcher where
  "listen_bare s =
     Option.bind (lit ''.listen('' s) (\<lambda>s.
     Option.bind (digits1 (spaces s)) (\<lambda>(ds, s).
     Option.bind (lit '')'' (spaces s)) (\<lambda>s.
     Some (listen_call ds, s))))"

definition listen_env :: matcher where
  "listen_env s =
     Option.bind (lit ''.listen('' s) (\<lambda>s.
     Option.bind (lit ''process.env.PORT'' (spaces s)) (\<lambda>s.
     Option.bind (lit ''||'' (spaces s)) (\<lambda>s.
     Option.bind (digits1 (spaces s)) (\<lambda>(ds, s).
     Option.bind (lit '')'' (spaces s)) (\<lambda>s.
     Some (listen_call ds, s))))))"

definition rewrite_port :: "string \<Rightarrow> string" where
  "rewrite_port c = (case first_sub [listen_bare, listen_env] c of None \<Rightarrow> c | Some c' \<Rightarrow> c')"

text \<open>The three patterns of the Flask rule; the third is
  \<open>app\.run\(host=['"]localhost['"]\)\<close>.\<close>

definition flask_run :: string where
  \<open>flask_run = ''app.run(host="0.0.0.0", port=int(os.environ.get("PORT", 5000)))''\<close>

definition flask_run_debug :: string where
  \<open>flask_run_debug =
     ''app.run(host="0.0.0.0", port=int(os.environ.get("PORT", 5000)), debug=False)''\<close>

definition run_localhost :: matcher where
  "run_localhost s =
     Option.bind (lit ''app.run(host='' s) (\<lambda>s.
     Option.bind (one_of quotes s) (\<lambda>s.
     Option.bind (lit ''localhost'' s) (\<lambda>s.
     Option.bind (one_of quotes s) (\<lambda>s.
     Option.bind (lit '')'' s) (\<lambda>s.
     Some (flask_run, s))))))"

definition run_patterns :: "matcher list" where
  "run_patterns =
     [literal ''app.run()'' flask_run,
      literal ''app.run(debug=True)'' flask_run_debug,
      run_localhost]"

text \<open>\<open>uvicorn\.run\([^)]*\)\<close>.\<close>

definition uvicorn_run :: string where
  \<open>uvicorn_run = ''uvicorn.run(app, host="0.0.0.0", port=int(os.environ.get("PORT", 8000)))''\<close>

definition uvicorn_pattern :: matcher where
  "uvicorn_pattern s =
     Option.bind (lit ''uvicorn.run('' s) (\<lambda>s.
     Option.bind (lit '')'' (dropWhile (\<lambda>c. c \<noteq> CHR '')'') s)) (\<lambda>s.
     Some (uvicorn_run, s)))"

text \<open>
  The host contexts, \<open>key\s*[=:]\s*["']?old["']?\<close> under \<open>re.IGNORECASE\<close>, for the
  keys \<open>host\<close>, \<open>bind\<close> and \<open>listen\<close>. \<open>host_context\<close> gives the text after the
  match. The replacement is \<open>m.group(0).replace(old_pattern, new_pattern)\<close>, computed
  from the matched text by \<open>str.replace\<close>.
\<close>

definition host_context :: "string \<Rightarrow> string \<Rightarrow> string \<Rightarrow> string option" where
  "host_context key old s =
     Option.bind (ci_lit key s) (\<lambda>s.
     Option.bind (one_of ''=:'' (spaces s)) (\<lambda>s.
     Option.bind (ci_lit old (opt_one_of quotes (spaces s))) (\<lambda>s.
     Some (opt_one_of quotes s))))"

definition host_matcher :: "string \<Rightarrow> string \<Rightarrow> string \<Rightarrow> matcher" where
  "host_matcher key old new s =
     map_option (\<lambda>rest. (replace old new (take (length s - length rest) s), rest))
                (host_context key old s)"

definition problematic_patterns :: "(string \<times> string) list" where
  "problematic_patterns = [(''localhost'', ''0.0.0.0''), (''127.0.0.1'', ''0.0.0.0'')]"

definition host_keys :: "string list" where
  "host_keys = [''host'', ''bind'', ''listen'']"

text \<open>The two nested loops of \<open>_fix_file_bindings\<close> over the text of one file.\<close>

definition rebind :: "string \<Rightarrow> string" where
  "rebind c0 =
     foldl (\<lambda>c (old, new). foldl (\<lambda>c key. sub_if_found (host_matcher key old new) c) c host_keys)
           c0 problematic_patterns"

section \<open>FixEngine: the texts it writes\<close>

definition listen_block :: string where
  \<open>listen_block =
     ''\<newline>''
   @ ''\<newline>''
   @ ''// Added by deployment fix\<newline>''
   @ ''const PORT = process.env.PORT || 3000;\<newline>''
   @ ''app.listen(PORT, "0.0.0.0", () => {\<newline>''
   @ ''  console.log(`Server running on port ${PORT}`);\<newline>''
   @ ''});\<newline>''
  \<close>

definition startup_block :: string where
  \<open>startup_block =
     ''\<newline>''
   @ ''\<newline>''
   @ ''# Added by deployment fix\<newline>''
   @ ''if __name__ == "__main__":\<newline>''
   @ ''    import os\<newline>''
   @ ''    port = int(os.environ.get("PORT", 8000))\<newline>''
   @ ''    print(f"Starting server on port {port}")\<newline>''
  \<close>

definition import_os :: string where
  \<open>import_os =
     ''import os\<newline>''
  \<close>

definition htaccess_content :: string where
  \<open>htaccess_content =
     ''# Added by deployment fix\<newline>''
   @ ''RewriteEngine On\<newline>''
   @ ''RewriteCond %{REQUEST_FILENAME} !-d\<newline>''
   @ ''RewriteCond %{REQUEST_FILENAME} !-f\<newline>''
   @ ''RewriteRule ^(.+)$ index.php [QSA,L]\<newline>''
  \<close>

definition env_content :: string where
  \<open>env_content =
     ''# Environment Configuration - Added by deployment fix\<newline>''
   @ ''NODE_ENV=production\<newline>''
   @ ''DEBUG=false\<newline>''
   @ ''PORT=8000\<newline>''
   @ ''HOST=0.0.0.0\<newline>''
  \<close>

definition guide_head :: string where
  \<open>guide_head =
     ''# Deployment Configuration Notes\<newline>''
   @ ''\<newline>''
   @ ''## Hardcoded Values Detected\<newline>''
   @ ''The following files contain hardcoded values that should be moved to environment variables:\<newline>''
   @ ''\<newline>''
  \<close>

definition guide_tail :: string where
  \<open>guide_tail =
     ''\<newline>''
   @ ''## Recommended Actions\<newline>''
   @ ''1. Move hardcoded values to environment variables\<newline>''
   @ ''2. Use process.env.VARIABLE_NAME (Node.js) or os.environ.get(\'VARIABLE_NAME\') (Python)\<newline>''
   @ ''3. Update configuration files to use environment variables\<newline>''
   @ ''\<newline>''
   @ ''## Environment Variables to Set\<newline>''
   @ ''- DATABASE_URL\<newline>''
   @ ''- SECRET_KEY\<newline>''
   @ ''- API_KEYS\<newline>''
   @ ''- PORT\<newline>''
   @ ''- HOST\<newline>''
  \<close>

definition nodejs_start_content :: string where
  \<open>nodejs_start_content =
     ''#!/bin/bash\<newline>''
   @ ''# Node.js Application Startup Script - Added by deployment fix\<newline>''
   @ ''\<newline>''
   @ ''echo "Starting Node.js application..."\<newline>''
   @ ''\<newline>''
   @ ''# Install dependencies if node_modules doesn\'t exist\<newline>''
   @ ''if [ ! -d "node_modules" ]; then\<newline>''
   @ ''    echo "Installing dependencies..."\<newline>''
   @ ''    npm install\<newline>''
   @ ''fi\<newline>''
   @ ''\<newline>''
   @ ''# Start the application\<newline>''
   @ ''echo "Starting server..."\<newline>''
   @ ''npm start\<newline>''
  \<close>

definition django_start_content :: string where
  \<open>django_start_content =
     ''#!/bin/bash\<newline>''
   @ ''# Django Application Startup Script - Added by deployment fix\<newline>''
   @ ''\<newline>''
   @ ''echo "Starting Django application..."\<newline>''
   @ ''\<newline>''
   @ ''# Install dependencies\<newline>''
   @ ''if [ -f "requirements.txt" ]; then\<newline>''
   @ ''    echo "Installing dependencies..."\<newline>''
   @ ''    pip install -r requirements.txt\<newline>''
   @ ''fi\<newline>''
   @ ''\<newline>''
   @ ''# Run migrations\<newline>''
   @ ''echo "Running migrations..."\<newline>''
   @ ''python manage.py migrate --noinput\<newline>''
   @ ''\<newline>''
   @ ''# Collect static files\<newline>''
   @ ''echo "Collecting static files..."\<newline>''
   @ ''python manage.py collectstatic --noinput\<newline>''
   @ ''\<newline>''
   @ ''# Start the server\<newline>''
   @ ''echo "Starting server..."\<newline>''
   @ ''python manage.py runserver 0.0.0.0:8000\<newline>''
  \<close>

definition flask_start_content :: string where
  \<open>flask_start_content =
     ''#!/bin/bash\<newline>''
   @ ''# Flask Application Startup Script - Added by deployment fix\<newline>''
   @ ''\<newline>''
   @ ''echo "Starting Flask application..."\<newline>''
   @ ''\<newline>''
   @ ''# Install dependencies\<newline>''
   @ ''if [ -f "requirements.txt" ]; then\<newline>''
   @ ''    echo "Installing dependencies..."\<newline>''
   @ ''    pip install -r requirements.txt\<newline>''
   @ ''fi\<newline>''
   @ ''\<newline>''
   @ ''# Start the application\<newline>''
   @ ''echo "Starting server..."\<newline>''
   @ ''python app.py\<newline>''
  \<close>

definition python_start_content :: string where
  \<open>python_start_content =
     ''#!/bin/bash\<newline>''
   @ ''# Python Application Startup Script - Added by deployment fix\<newline>''
   @ ''\<newline>''
   @ ''echo "Starting Python application..."\<newline>''
   @ ''\<newline>''
   @ ''# Install dependencies\<newline>''
   @ ''if [ -f "requirements.txt" ]; then\<newline>''
   @ ''    echo "Installing dependencies..."\<newline>''
   @ ''    pip install -r requirements.txt\<newline>''
   @ ''fi\<newline>''
   @ ''\<newline>''
   @ ''# Find and start main application\<newline>''
   @ ''if [ -f "main.py" ]; then\<newline>''
   @ ''    python main.py\<newline>''
   @ ''elif [ -f "app.py" ]; then\<newline>''
   @ ''    python app.py\<newline>''
   @ ''elif [ -f "server.py" ]; then\<newline>''
   @ ''    python server.py\<newline>''
   @ ''else\<newline>''
   @ ''    echo "No main application file found"\<newline>''
   @ ''    exit 1\<newline>''
   @ ''fi\<newline>''
  \<close>

definition run_content :: string where
  \<open>run_content =
     ''#!/usr/bin/env python3\<newline>''
   @ ''# Basic run script - Added by deployment fix\<newline>''
   @ ''\<newline>''
   @ ''import os\<newline>''
   @ ''import sys\<newline>''
   @ ''from pathlib import Path\<newline>''
   @ ''\<newline>''
   @ ''def find_main_module():\<newline>''
   @ ''    """Find the main application module"""\<newline>''
   @ ''    candidates = [\'app.py\', \'main.py\', \'server.py\', \'wsgi.py\']\<newline>''
   @ ''    \<newline>''
   @ ''    for candidate in candidates:\<newline>''
   @ ''        if Path(candidate).exists():\<newline>''
   @ ''            return candidate.replace(\'.py\', '' @ [CHR 0x27, CHR 0x27] @ '')\<newline>''
   @ ''    \<newline>''
   @ ''    return None\<newline>''
   @ ''\<newline>''
   @ ''def main():\<newline>''
   @ ''    """Main entry point"""\<newline>''
   @ ''    print("Starting application...")\<newline>''
   @ ''    \<newline>''
   @ ''    # Set environment variables\<newline>''
   @ ''    os.environ.setdefault(\'HOST\', \'0.0.0.0\')\<newline>''
   @ ''    os.environ.setdefault(\'PORT\', \'8000\')\<newline>''
   @ ''    \<newline>''
   @ ''    # Try to find and import main module\<newline>''
   @ ''    main_module = find_main_module()\<newline>''
   @ ''    if main_module:\<newline>''
   @ ''        try:\<newline>''
   @ ''            __import__(main_module)\<newline>''
   @ ''            print(f"Started {main_module}")\<newline>''
   @ ''        except Exception as e:\<newline>''
   @ ''            print(f"Failed to start {main_module}: {e}")\<newline>''
   @ ''            sys.exit(1)\<newline>''
   @ ''    else:\<newline>''
   @ ''        print("No main application module found")\<newline>''
   @ ''        sys.exit(1)\<newline>''
   @ ''\<newline>''
   @ ''if __name__ == "__main__":\<newline>''
   @ ''    main()\<newline>''
  \<close>

section \<open>FixEngine: the fixes\<close>

text \<open>
  The state a fix works on: the project tree and \<open>self.fixes_applied\<close>. A fix that
  catches its exceptions is a function on states. A fix that lets an exception escape
  returns the exception with the state reached when it was raised.
\<close>

type_synonym state = "tree \<times> string list"

text \<open>\<open>with open(path, 'w') as f: f.write(c)\<close> followed by
  \<open>self.fixes_applied.append(note)\<close>, outside any \<open>try\<close>.\<close>

definition write_and_note :: "string \<Rightarrow> string \<Rightarrow> string \<Rightarrow> state \<Rightarrow> exn option \<times> state" where
  "write_and_note n c note st =
     (case st of (t, fixes) \<Rightarrow>
        (case write_file t n c of
           Inl e \<Rightarrow> (Some e, (t, fixes))
         | Inr t' \<Rightarrow> (None, (t', fixes @ [note]))))"

text \<open>Running the next statement, unless an exception is on its way up.\<close>

definition and_then ::
  "exn option \<times> state \<Rightarrow> (state \<Rightarrow> exn option \<times> state) \<Rightarrow> exn option \<times> state" where
  "and_then r f = (case r of (None, st) \<Rightarrow> f st | (Some e, st) \<Rightarrow> (Some e, st))"

subsection \<open>Node.js\<close>

text \<open>
  \<open>os.path.exists(os.path.join(project_dir, main_file))\<close> for the \<open>main\<close> entry of
  the manifest, which may name a file in a subdirectory. The components of the path are
  followed from the project directory: an empty component and \<open>.\<close> stay where they
  are, \<open>..\<close> goes back to the directory above, a name that is missing ends the search,
  and so does a file that is not the last component. A path that is absolute, or that
  goes above the project directory, names something in the file system around the project,
  which the tree does not hold: whether it exists is the parameter \<open>outside\<close>. A path
  with a null character exists nowhere.
\<close>

fun split_on :: "char \<Rightarrow> string \<Rightarrow> string list" where
  "split_on sep [] = [[]]"
| "split_on sep (c # cs) =
     (if c = sep then [] # split_on sep cs
      else (case split_on sep cs of [] \<Rightarrow> [[c]] | x # xs \<Rightarrow> (c # x) # xs))"

text \<open>\<open>resolve parents es p\<close> follows the components \<open>p\<close> from the directory with the
  entries \<open>es\<close>, \<open>parents\<close> being the directories passed on the way down from the project
  directory, the nearest first; \<open>None\<close> when the path goes above the project directory.\<close>

fun resolve :: "tree list \<Rightarrow> tree \<Rightarrow> string list \<Rightarrow> bool option" where
  "resolve parents es [] = Some True"
| "resolve parents es (c # cs) =
     (if c = [] \<or> c = ''.'' then resolve parents es cs
      else if c = ''..'' then
        (case parents of
           [] \<Rightarrow> None
         | es' # rest \<Rightarrow> resolve rest es' cs)
      else (case lookup es c of
              None \<Rightarrow> Some False
            | Some (File f x z) \<Rightarrow> Some (cs = [])
            | Some (Dir d sub) \<Rightarrow> resolve (es # parents) sub cs))"

definition path_exists :: "(string \<Rightarrow> bool) \<Rightarrow> tree \<Rightarrow> string \<Rightarrow> bool" where
  "path_exists outside t p =
     (if CHR 0x00 \<in> set p then False
      else if startswith p ''/'' then outside p
      else (case resolve [] t (split_on CHR ''/'' p) of
              None \<Rightarrow> outside p
            | Some found \<Rightarrow> found))"

text \<open>The choice of \<open>main_file\<close>; \<open>os.path.join\<close> raises on a value that is not a
  string.\<close>

definition main_file_of :: "(string \<Rightarrow> bool) \<Rightarrow> tree \<Rightarrow> dict \<Rightarrow> exn + string" where
  "main_file_of outside t package_data =
     (case dict_get package_data ''main'' (JStr ''index.js'') of
        JStr main_file \<Rightarrow>
          Inr (if \<not> path_exists outside t main_file then
                 (case filter (exists t) [''app.js'', ''server.js'', ''main.js'', ''index.js''] of
                    [] \<Rightarrow> main_file
                  | entry # _ \<Rightarrow> entry)
               else main_file)
      | _ \<Rightarrow> Inl TypeError)"

text \<open>
  The statements between \<open>json.load\<close> and \<open>json.dump\<close>: the new manifest and the
  ledger entries, or the exception. Only a \<open>dict\<close> takes \<open>package_data["scripts"] = {}\<close>
  or is indexed by a string; \<open>"start" not in scripts\<close> is a test on the keys of a
  \<open>dict\<close>, on the elements of a list and on the substrings of a string, and only a
  \<open>dict\<close> takes \<open>scripts["start"] = ...\<close>.
\<close>

definition add_start_script ::
  "(string \<Rightarrow> bool) \<Rightarrow> tree \<Rightarrow> json \<Rightarrow> exn + (json \<times> string list)" where
  "add_start_script outside t package_data =
     (case package_data of
        JObj d0 \<Rightarrow>
          (let d = (if \<not> dict_has d0 ''scripts'' then dict_set d0 ''scripts'' (JObj []) else d0)
           in case dict_get d ''scripts'' JNull of
                JObj scripts \<Rightarrow>
                  if \<not> dict_has scripts ''start'' then
                    (case main_file_of outside t d of
                       Inl e \<Rightarrow> Inl e
                     | Inr main_file \<Rightarrow>
                         Inr (JObj (dict_set d ''scripts''
                                      (JObj (dict_set scripts ''start'' (JStr (''node '' @ main_file))))),
                              [''Added start script to package.json'']))
                  else Inr (JObj d, [])
              | JStr s \<Rightarrow> if \<not> contains s ''start'' then Inl TypeError else Inr (JObj d, [])
              | JArr xs \<Rightarrow> if JStr ''start'' \<notin> set xs then Inl TypeError else Inr (JObj d, [])
              | _ \<Rightarrow> Inl TypeError)
      | _ \<Rightarrow> Inl TypeError)"

text \<open>The \<open>try\<close> block of \<open>_fix_nodejs_issues\<close>; the manifest is written back
  whether or not it was changed.\<close>

definition fix_package_json ::
  "(string \<Rightarrow> json option) \<Rightarrow> (json \<Rightarrow> string) \<Rightarrow> (string \<Rightarrow> bool) \<Rightarrow> state
     \<Rightarrow> state" where
  "fix_package_json loads dumps outside st =
     (case st of (t, fixes) \<Rightarrow>
        if exists t ''package.json'' then
          (case load_package loads t of
             Inl e \<Rightarrow> st
           | Inr package_data \<Rightarrow>
               (case add_start_script outside t package_data of
                  Inl e \<Rightarrow> st
                | Inr (package_data', notes) \<Rightarrow>
                    (case write_file t ''package.json'' (dumps package_data') of
                       Inl e \<Rightarrow> (t, fixes @ notes)
                     | Inr t' \<Rightarrow> (t', fixes @ notes))))
        else st)"

text \<open>The text of \<open>_fix_nodejs_main_file\<close> after its rules, and the ledger entries
  made on the way.\<close>

definition nodejs_main_text :: "string \<Rightarrow> string \<times> string list" where
  "nodejs_main_text original =
     (let c = rewrite_port original
      in if \<not> contains c ''.listen('' \<and> contains c ''createServer'' then
           (c @ listen_block, [''Added proper port binding to Node.js app''])
         else (c, []))"

definition fix_nodejs_main_file :: "string \<Rightarrow> state \<Rightarrow> state" where
  "fix_nodejs_main_file n st =
     (case st of (t, fixes) \<Rightarrow>
        (case read_file t n of
           Inl e \<Rightarrow> st
         | Inr original \<Rightarrow>
             (case nodejs_main_text original of (c, notes) \<Rightarrow>
                if c \<noteq> original then
                  (case write_file t n c of
                     Inl e \<Rightarrow> (t, fixes @ notes)
                   | Inr t' \<Rightarrow> (t', fixes @ notes @ [''Fixed port binding in '' @ basename n]))
                else (t, fixes @ notes))))"

definition fix_nodejs_issues ::
  "(string \<Rightarrow> json option) \<Rightarrow> (json \<Rightarrow> string) \<Rightarrow> (string \<Rightarrow> bool) \<Rightarrow> state
     \<Rightarrow> state" where
  "fix_nodejs_issues loads dumps outside st =
     (let st = fix_package_json loads dumps outside st
      in case filter (exists (fst st)) [''app.js'', ''server.js'', ''index.js'', ''main.js''] of
           [] \<Rightarrow> st
         | main_file # _ \<Rightarrow> fix_nodejs_main_file main_file st)"

subsection \<open>Python\<close>

definition add_import_os :: "string \<Rightarrow> bool" where
  \<open>add_import_os c = (contains c ''os.environ.get("PORT"'' \<and> \<not> contains c ''import os'')\<close>

definition flask_text :: "string \<Rightarrow> string \<times> string list" where
  "flask_text c0 =
     (let (c, notes) = (case first_sub run_patterns c0 of
                          None \<Rightarrow> (c0, [])
                        | Some c' \<Rightarrow> (c', [''Fixed Flask app.run() for deployment'']))
      in if add_import_os c then
           (import_os @ c, notes @ [''Added os import for PORT environment variable''])
         else (c, notes))"

definition fastapi_text :: "string \<Rightarrow> string \<times> string list" where
  "fastapi_text c0 =
     (let (c, notes) = (if contains c0 ''uvicorn.run('' \<and> re_search uvicorn_pattern c0 then
                          (re_sub uvicorn_pattern c0, [''Fixed FastAPI uvicorn configuration''])
                        else (c0, []))
      in if add_import_os c then (import_os @ c, notes) else (c, notes))"

definition startup_text :: "string \<Rightarrow> string \<times> string list" where
  \<open>startup_text c =
     (if contains c ''__name__ == "__main__"''
         \<and> \<not> contains c ''app.run('' \<and> \<not> contains c ''uvicorn.run(''
         \<and> \<not> contains c ''.serve_forever()'' then
        (c @ startup_block, [''Added basic server startup code''])
      else (c, []))\<close>

definition django_settings_text :: "string \<Rightarrow> string \<times> string list" where
  \<open>django_settings_text c0 =
     (let (c, notes) =
            (if contains c0 ''ALLOWED_HOSTS = []'' then
               (replace ''ALLOWED_HOSTS = []'' ''ALLOWED_HOSTS = ["*"]  # Fixed for deployment'' c0,
                [''Fixed Django ALLOWED_HOSTS setting''])
             else (c0, []))
      in if contains c ''DEBUG = True'' then
           (let c = replace ''DEBUG = True''
                      ''DEBUG = os.environ.get("DEBUG", "False").lower() == "true"'' c
            in (if \<not> contains c ''import os'' then import_os @ c else c,
                notes @ [''Fixed Django DEBUG setting for production'']))
         else (c, notes))\<close>

definition fix_django_settings :: "state \<Rightarrow> state" where
  "fix_django_settings st =
     (case st of (t, fixes) \<Rightarrow>
        (case read_file t ''settings.py'' of
           Inl e \<Rightarrow> st
         | Inr original \<Rightarrow>
             (case django_settings_text original of (c, notes) \<Rightarrow>
                if c \<noteq> original then
                  (case write_file t ''settings.py'' c of
                     Inl e \<Rightarrow> (t, fixes @ notes)
                   | Inr t' \<Rightarrow> (t', fixes @ notes))
                else (t, fixes @ notes))))"

text \<open>\<open>_fix_python_main_file\<close> for a main file of the project directory, next to
  which \<open>settings.py\<close> is looked for.\<close>

definition fix_python_main_file :: "analysis \<Rightarrow> string \<Rightarrow> state \<Rightarrow> state" where
  "fix_python_main_file a n st =
     (case read_file (fst st) n of
        Inl e \<Rightarrow> st
      | Inr original \<Rightarrow>
          (let fw = frameworks (project_type a);
               (c, st) =
                 (if ''flask'' \<in> set fw then
                    (case flask_text original of (c, notes) \<Rightarrow> (c, (fst st, snd st @ notes)))
                  else if ''django'' \<in> set fw then
                    (original, if exists (fst st) ''settings.py'' then fix_django_settings st else st)
                  else if ''fastapi'' \<in> set fw then
                    (case fastapi_text original of (c, notes) \<Rightarrow> (c, (fst st, snd st @ notes)))
                  else (original, st));
               (c, notes) = startup_text c;
               st = (fst st, snd st @ notes)
           in if c \<noteq> original then
                (case write_file (fst st) n c of
                   Inl e \<Rightarrow> st
                 | Inr t' \<Rightarrow> (t', snd st))
              else st))"

definition python_main_files :: "string list" where
  "python_main_files = [''app.py'', ''main.py'', ''server.py'', ''run.py'']"

definition create_python_run_script :: "state \<Rightarrow> exn option \<times> state" where
  "create_python_run_script st = write_and_note ''run.py'' run_content ''Created Python run script'' st"

definition fix_python_issues :: "analysis \<Rightarrow> state \<Rightarrow> exn option \<times> state" where
  "fix_python_issues a st =
     (let st = foldl (\<lambda>st main_file.
                        if exists (fst st) main_file then fix_python_main_file a main_file st
                        else st)
                     st python_main_files
      in if \<not> list_ex (exists (fst st)) python_main_files then create_python_run_script st
         else (None, st))"

subsection \<open>PHP\<close>

definition fix_php_issues :: "state \<Rightarrow> exn option \<times> state" where
  "fix_php_issues st =
     (if \<not> exists (fst st) ''.htaccess'' then
        write_and_note ''.htaccess'' htaccess_content ''Created .htaccess file for PHP application'' st
      else (None, st))"

subsection \<open>The generic fixes\<close>

definition binding_extensions :: "string list" where
  "binding_extensions = [''.py'', ''.js'', ''.php'', ''.rb'', ''.go'']"

definition skipped_dirs :: "string list" where
  "skipped_dirs = [''node_modules'', ''__pycache__'', ''.git'']"

text \<open>
  \<open>_fix_file_bindings\<close> on one file of the walk. The file was listed by \<open>os.walk\<close>
  and is read with \<open>errors='ignore'\<close>; it is written when its text changed, and the
  ledger names its path relative to the working directory.
\<close>

definition fix_file_bindings :: "node \<Rightarrow> node" where
  "fix_file_bindings x =
     (case x of
        File f c z \<Rightarrow> if rebind c \<noteq> c then File f (rebind c) (length (rebind c)) else x
      | Dir d sub \<Rightarrow> x)"

definition binding_note :: "string \<times> node \<Rightarrow> string list" where
  "binding_note e =
     (case e of (p, x) \<Rightarrow>
        if list_ex (endswith (name x)) binding_extensions \<and> rebind (content x) \<noteq> content x
        then [''Fixed host binding in '' @ pjoin p (name x)] else [])"

text \<open>
  \<open>_fix_port_binding\<close> walks the tree with \<open>node_modules\<close>, \<open>__pycache__\<close> and
  \<open>.git\<close> removed from \<open>dirs\<close>. What it does to a file depends on that file alone,
  so the new tree is given directory by directory, and the ledger entries follow the
  order of the walk. \<open>project_dir\<close> is the path of the project directory relative to
  the working directory, empty when they are the same.
\<close>

fun fix_port_tree :: "tree \<Rightarrow> tree" where
  "fix_port_tree [] = []"
| "fix_port_tree (File f c z # es) =
     (if list_ex (endswith f) binding_extensions then fix_file_bindings (File f c z)
      else File f c z) # fix_port_tree es"
| "fix_port_tree (Dir d sub # es) =
     (if d \<in> set skipped_dirs then Dir d sub else Dir d (fix_port_tree sub)) # fix_port_tree es"

definition fix_port_binding :: "string \<Rightarrow> state \<Rightarrow> state" where
  "fix_port_binding project_dir st =
     (case st of (t, fixes) \<Rightarrow>
        (fix_port_tree t,
         fixes @ concat (map binding_note (walk (\<lambda>d. d \<notin> set skipped_dirs) project_dir t))))"

definition fix_environment_config :: "analysis \<Rightarrow> state \<Rightarrow> exn option \<times> state" where
  "fix_environment_config a st =
     (if environment_files a = [] then
        write_and_note ''.env'' env_content ''Created .env file with deployment configuration'' st
      else (None, st))"

definition guide_content :: "issue list \<Rightarrow> string" where
  "guide_content hardcoded_issues =
     guide_head
     @ concat (map (\<lambda>i. ''- '' @ description i @ [CHR 0x0A]) hardcoded_issues)
     @ guide_tail"

definition fix_hardcoded_configs :: "analysis \<Rightarrow> state \<Rightarrow> exn option \<times> state" where
  "fix_hardcoded_configs a st =
     (let hardcoded_issues =
            filter (\<lambda>i. issue_type i = ''hardcoded_config'') (potential_issues a)
      in if hardcoded_issues \<noteq> [] then
           write_and_note ''DEPLOYMENT_NOTES.md'' (guide_content hardcoded_issues)
             ''Created deployment configuration guide'' st
         else (None, st))"

text \<open>The startup scripts; \<open>os.chmod\<close> changes the mode of the file, which the tree
  does not record.\<close>

definition create_nodejs_startup :: "state \<Rightarrow> exn option \<times> state" where
  "create_nodejs_startup st =
     write_and_note ''start.sh'' nodejs_start_content ''Created Node.js startup script'' st"

definition create_python_startup :: "analysis \<Rightarrow> state \<Rightarrow> exn option \<times> state" where
  "create_python_startup a st =
     (let fw = frameworks (project_type a);
          start_content =
            (if ''django'' \<in> set fw then django_start_content
             else if ''flask'' \<in> set fw then flask_start_content
             else python_start_content)
      in write_and_note ''start.sh'' start_content ''Created Python startup script'' st)"

definition create_startup_script :: "analysis \<Rightarrow> state \<Rightarrow> exn option \<times> state" where
  "create_startup_script a st =
     (if primary (project_type a) = ''nodejs'' then create_nodejs_startup st
      else if primary (project_type a) = ''python'' then create_python_startup a st
      else (None, st))"

subsection \<open>apply_fixes\<close>

definition type_fixes ::
  "(string \<Rightarrow> json option) \<Rightarrow> (json \<Rightarrow> string) \<Rightarrow> (string \<Rightarrow> bool) \<Rightarrow> analysis
     \<Rightarrow> state \<Rightarrow> exn option \<times> state" where
  "type_fixes loads dumps outside a st =
     (if primary (project_type a) = ''nodejs'' then (None, fix_nodejs_issues loads dumps outside st)
      else if primary (project_type a) = ''python'' then fix_python_issues a st
      else if primary (project_type a) = ''php'' then fix_php_issues st
      else (None, st))"

text \<open>The body of the \<open>try\<close> block of \<open>apply_fixes\<close>.\<close>

definition run_fixes ::
  "(string \<Rightarrow> json option) \<Rightarrow> (json \<Rightarrow> string) \<Rightarrow> (string \<Rightarrow> bool) \<Rightarrow> string
     \<Rightarrow> analysis \<Rightarrow> state \<Rightarrow> exn option \<times> state" where
  "run_fixes loads dumps outside project_dir a st =
     and_then (and_then (and_then (and_then
       (type_fixes loads dumps outside a st)
       (\<lambda>st. (None, fix_port_binding project_dir st)))
       (fix_environment_config a))
       (fix_hardcoded_configs a))
       (create_startup_script a)"

text \<open>\<open>apply_fixes\<close>: the value it returns and the state it leaves. An exception
  that reaches its \<open>except\<close> clause makes it return \<open>False\<close>.\<close>

definition apply_fixes ::
  "(string \<Rightarrow> json option) \<Rightarrow> (json \<Rightarrow> string) \<Rightarrow> (string \<Rightarrow> bool) \<Rightarrow> string
     \<Rightarrow> analysis \<Rightarrow> state \<Rightarrow> bool \<times> state" where
  "apply_fixes loads dumps outside project_dir a st =
     (case run_fixes loads dumps outside project_dir a st of
        (None, st') \<Rightarrow> (length (snd st') > 0, st')
      | (Some e, st') \<Rightarrow> (False, st'))"

section \<open>The decision table of the classifier\<close>

text \<open>
  The stacks in the order in which \<open>_detect_project_type\<close> looks for them, each with
  the technology it adds and the test for its manifest, and the stacks of the table
  whose manifest a tree has.
\<close>

definition stack_table :: "(string \<times> string \<times> (tree \<Rightarrow> bool)) list" where
  "stack_table =
     [(''nodejs'', ''javascript'', has_nodejs),
      (''python'', ''python'', has_python),
      (''php'', ''php'', has_php),
      (''go'', ''go'', has_go),
      (''ruby'', ''ruby'', has_ruby),
      (''static'', ''html'', has_static)]"

definition matched_stacks :: "tree \<Rightarrow> (string \<times> string \<times> (tree \<Rightarrow> bool)) list" where
  "matched_stacks t = filter (\<lambda>(s, tech, present). present t) stack_table"

section \<open>Manifests of the examples\<close>

text \<open>What \<open>json.load\<close> returns for the manifests used in the examples below, and
  \<open>None\<close>, its failure, for any other text.\<close>

definition loads_example :: "string \<Rightarrow> json option" where
  \<open>loads_example s =
     (if s = ''{"dependencies": {"express": "4.18.2"}}'' then
        Some (JObj [(''dependencies'', JObj [(''express'', JStr ''4.18.2'')])])
      else if s = ''{"dependencies": {"express-session": "1.17.3"}}'' then
        Some (JObj [(''dependencies'', JObj [(''express-session'', JStr ''1.17.3'')])])
      else if s = ''{"name": "app"}'' then
        Some (JObj [(''name'', JStr ''app'')])
      else None)\<close>

text \<open>What \<open>json.dump(..., indent=2)\<close> writes for the manifest of the example below;
  no other document is written in the examples.\<close>

definition dumps_example :: "json \<Rightarrow> string" where
  \<open>dumps_example j =
     (if j = JObj [(''name'', JStr ''app''),
                   (''scripts'', JObj [(''start'', JStr ''node app.js'')])] then
        ''{\<newline>  "name": "app",\<newline>  "scripts": {\<newline>    "start": "node app.js"\<newline>  }\<newline>}''
      else [])\<close>

text \<open>The file system around the project directory in the examples: of the paths that
  lead out of the project directory, the directory above it and the root exist.\<close>

definition outside_example :: "string \<Rightarrow> bool" where
  "outside_example p = (p = ''..'' \<or> p = ''/'')"

section \<open>A project whose \<open>.env\<close> is a directory\<close>

text \<open>
  The project holds an empty directory \<open>.env\<close> and the file \<open>a.js\<close>. Its report is
  what the analysis finds: no manifest, no environment file, since a directory is not in
  the \<open>files\<close> of the walk, and the word \<open>localhost\<close> in \<open>a.js\<close>.
\<close>

definition env_dir_tree :: tree where
  "env_dir_tree = [Dir ''.env'' [], File ''a.js'' ''host=localhost'' 14]"

definition env_dir_report :: analysis where
  "env_dir_report =
     \<lparr>project_type = \<lparr>primary = ''unknown'', technologies = [], frameworks = []\<rparr>,
      important_files = [],
      environment_files = [],
      potential_issues =
        [\<lparr>issue_type = ''hardcoded_config'', severity = ''medium'',
          description = ''Hardcoded localhost references found in a.js''\<rparr>,
         \<lparr>issue_type = ''missing_env'', severity = ''low'',
          description = ''No environment configuration files found''\<rparr>]\<rparr>"

text \<open>\<open>FixEngine.__init__\<close> and \<open>get_fixes_applied\<close>.\<close>

definition new_fixes_applied :: "string list" where
  "new_fixes_applied = []"

definition get_fixes_applied :: "state \<Rightarrow> string list" where
  "get_fixes_applied st = snd st"


section \<open>A small Python project\<close>

text \<open>
  The project holds an empty \<open>requirements.txt\<close> and \<open>app.py\<close>. Its report is what
  the analysis of a new analyzer finds: a Python project without frameworks, no
  environment file, the word \<open>localhost\<close> in \<open>app.py\<close>.
\<close>

definition py_tree :: tree where
  "py_tree = [File ''requirements.txt'' [] 0, File ''app.py'' ''host=localhost'' 14]"

definition py_report :: analysis where
  "py_report =
     \<lparr>project_type = \<lparr>primary = ''python'', technologies = [''python''], frameworks = []\<rparr>,
      important_files = [''requirements.txt'', ''app.py''],
      environment_files = [],
      potential_issues =
        [\<lparr>issue_type = ''hardcoded_config'', severity = ''medium'',
          description = ''Hardcoded localhost references found in app.py''\<rparr>,
         \<lparr>issue_type = ''missing_env'', severity = ''low'',
          description = ''No environment configuration files found''\<rparr>]\<rparr>"

text \<open>The tree the first call of \<open>apply_fixes\<close> leaves, and the report a new analyzer
  makes of that tree.\<close>

definition py_tree_fixed :: tree where
  "py_tree_fixed =
     [File ''requirements.txt'' [] 0,
      File ''app.py'' ''host=0.0.0.0'' 12,
      File ''.env'' env_content (length env_content),
      File ''DEPLOYMENT_NOTES.md''
        (guide_content [\<lparr>issue_type = ''hardcoded_config'', severity = ''medium'',
           description = ''Hardcoded localhost references found in app.py''\<rparr>])
        (length (guide_content [\<lparr>issue_type = ''hardcoded_config'', severity = ''medium'',
           description = ''Hardcoded localhost references found in app.py''\<rparr>])),
      File ''start.sh'' python_start_content (length python_start_content)]"

definition py_report_fixed :: analysis where
  "py_report_fixed =
     \<lparr>project_type = \<lparr>primary = ''python'', technologies = [''python''], frameworks = []\<rparr>,
      important_files = [''requirements.txt'', ''app.py'', ''.env''],
      environment_files = [''.env''],
      potential_issues =
        [\<lparr>issue_type = ''missing_env'', severity = ''low'',
          description = ''No environment configuration files found''\<rparr>]\<rparr>"

section \<open>A Python main file with a main guard\<close>

definition guarded_main :: string where
  \<open>guarded_main = ''if __name__ == "__main__":\<newline>    main()\<newline>''\<close>

definition no_frameworks :: analysis where
  "no_frameworks =
     \<lparr>project_type = \<lparr>primary = ''python'', technologies = [''python''], frameworks = []\<rparr>,
      important_files = [''app.py''],
      environment_files = [''.env''],
      potential_issues = []\<rparr>"

section \<open>Properties\<close>

lemma ports_in_valid: "p \<in> set (ports_in c) \<Longrightarrow> valid_port p"
  by (auto simp: ports_in_def)

lemma ports_in_iff:
  "p \<in> set (ports_in c) \<longleftrightarrow>
     valid_port p \<and> (\<exists>k \<in> set port_patterns. p \<in> int_of_digits ` set (findall_kw k c))"
  by (auto simp: ports_in_def)

lemma detected_ports_iff:
  "p \<in> set (concat (map (\<lambda>f. case read_file t f of Inr c \<Rightarrow> ports_in c | Inl e \<Rightarrow> [])
                        (filter (exists t) port_main_files)))
   \<longleftrightarrow> (\<exists>f c. f \<in> set port_main_files \<and> exists t f \<and> read_file t f = Inr c
              \<and> p \<in> set (ports_in c))"
proof
  assume "p \<in> set (concat (map (\<lambda>f. case read_file t f of Inr c \<Rightarrow> ports_in c | Inl e \<Rightarrow> [])
                        (filter (exists t) port_main_files)))"
  then obtain f where f: "f \<in> set port_main_files" "exists t f"
    and p: "p \<in> set (case read_file t f of Inr c \<Rightarrow> ports_in c | Inl e \<Rightarrow> [])"
    by auto
  from p obtain c where "read_file t f = Inr c" "p \<in> set (ports_in c)"
    by (cases "read_file t f") auto
  with f show "\<exists>f c. f \<in> set port_main_files \<and> exists t f \<and> read_file t f = Inr c
              \<and> p \<in> set (ports_in c)" by blast
next
  assume "\<exists>f c. f \<in> set port_main_files \<and> exists t f \<and> read_file t f = Inr c
              \<and> p \<in> set (ports_in c)"
  then obtain f c where "f \<in> set port_main_files" "exists t f" "read_file t f = Inr c"
      "p \<in> set (ports_in c)" by blast
  then show "p \<in> set (concat (map (\<lambda>f. case read_file t f of Inr c \<Rightarrow> ports_in c | Inl e \<Rightarrow> [])
                        (filter (exists t) port_main_files)))"
    by (auto intro!: bexI [of _ f])
qed

lemma detect_port_config_None:
  "detect_port_config t = None \<longleftrightarrow>
     (\<forall>f c. f \<in> set port_main_files \<and> exists t f \<and> read_file t f = Inr c
            \<longrightarrow> ports_in c = [])"
proof -
  let ?d = "concat (map (\<lambda>f. case read_file t f of Inr c \<Rightarrow> ports_in c | Inl e \<Rightarrow> [])
                        (filter (exists t) port_main_files))"
  have "detect_port_config t = None \<longleftrightarrow> ?d = []"
    by (simp add: detect_port_config_def Let_def)
  also have "\<dots> \<longleftrightarrow> (\<forall>p. p \<notin> set ?d)"
    by (cases ?d) auto
  also have "\<dots> \<longleftrightarrow> (\<forall>f c. f \<in> set port_main_files \<and> exists t f \<and> read_file t f = Inr c
            \<longrightarrow> (\<forall>p. p \<notin> set (ports_in c)))"
    unfolding detected_ports_iff by blast
  also have "\<dots> \<longleftrightarrow> (\<forall>f c. f \<in> set port_main_files \<and> exists t f \<and> read_file t f = Inr c
            \<longrightarrow> ports_in c = [])"
  proof -
    have "\<And>c. (\<forall>p. p \<notin> set (ports_in c)) \<longleftrightarrow> ports_in c = []"
      subgoal for c by (cases "ports_in c") auto
      done
    then show ?thesis by simp
  qed
  finally show ?thesis .
qed

lemma detect_port_config_Some:
  assumes "detect_port_config t = Some ports"
  shows "ports \<noteq> []" and "distinct ports"
    and "p \<in> set ports \<longleftrightarrow>
           (\<exists>f c. f \<in> set port_main_files \<and> exists t f \<and> read_file t f = Inr c
                  \<and> p \<in> set (ports_in c))"
proof -
  let ?d = "concat (map (\<lambda>f. case read_file t f of Inr c \<Rightarrow> ports_in c | Inl e \<Rightarrow> [])
                        (filter (exists t) port_main_files))"
  from assms have d: "?d \<noteq> []" and p: "ports = remdups ?d"
    by (auto simp: detect_port_config_def Let_def split: if_splits)
  show "ports \<noteq> []" using d p by simp
  show "distinct ports" using p by simp
  have "set ports = set ?d" using p by simp
  then show "p \<in> set ports \<longleftrightarrow>
           (\<exists>f c. f \<in> set port_main_files \<and> exists t f \<and> read_file t f = Inr c
                  \<and> p \<in> set (ports_in c))"
    using detected_ports_iff [of p t] by simp
qed

text \<open>
  C9. The result of the probe is absent exactly when no main application file that
  exists and can be read holds a port hint. Otherwise it is a non-empty list that
  holds no port twice; its ports are exactly the numbers in the range 1000..65535
  that a match of one of the four patterns captures in one of these files, so every
  port hint lies in the range 1000..65535.
\<close>

theorem C9_port_hints:
  "(detect_port_config t = None \<longleftrightarrow>
      (\<forall>f c. f \<in> set port_main_files \<and> exists t f \<and> read_file t f = Inr c
             \<longrightarrow> ports_in c = []))
   \<and> (\<forall>ports. detect_port_config t = Some ports \<longrightarrow>
        ports \<noteq> [] \<and> distinct ports
        \<and> (\<forall>p. p \<in> set ports \<longleftrightarrow>
               1000 \<le> p \<and> p \<le> 65535
               \<and> (\<exists>f c k. f \<in> set port_main_files \<and> exists t f \<and> read_file t f = Inr c
                      \<and> k \<in> set port_patterns
                      \<and> p \<in> int_of_digits ` set (findall_kw k c)))
        \<and> (\<forall>p \<in> set ports. 1000 \<le> p \<and> p \<le> 65535))"
proof (intro conjI allI impI)
  show "detect_port_config t = None \<longleftrightarrow>
      (\<forall>f c. f \<in> set port_main_files \<and> exists t f \<and> read_file t f = Inr c
             \<longrightarrow> ports_in c = [])"
    by (rule detect_port_config_None)
next
  fix ports assume s: "detect_port_config t = Some ports"
  show "ports \<noteq> []" "distinct ports"
    using detect_port_config_Some(1,2) [OF s] by blast+
  show m: "p \<in> set ports \<longleftrightarrow>
               1000 \<le> p \<and> p \<le> 65535
               \<and> (\<exists>f c k. f \<in> set port_main_files \<and> exists t f \<and> read_file t f = Inr c
                      \<and> k \<in> set port_patterns
                      \<and> p \<in> int_of_digits ` set (findall_kw k c))" for p
    unfolding detect_port_config_Some(3) [OF s] ports_in_iff valid_port_def by blast
  show "\<forall>p \<in> set ports. 1000 \<le> p \<and> p \<le> 65535"
    using m by blast
qed

theorem C9_port_hints_witness:
  "detect_port_config [File ''app.js'' ''app.listen(3000); // port 8080'' 31]
     = Some [8080, 3000]
   \<and> distinct [8080, 3000 :: nat]
   \<and> (1000 :: nat) \<le> 8080 \<and> (8080 :: nat) \<le> 65535
   \<and> (1000 :: nat) \<le> 3000 \<and> (3000 :: nat) \<le> 65535
   \<and> exists [File ''app.js'' ''app.listen(3000); // port 8080'' 31] ''app.js''
   \<and> ''app.js'' \<in> set port_main_files
   \<and> ''listen'' \<in> set port_patterns
   \<and> read_file [File ''app.js'' ''app.listen(3000); // port 8080'' 31] ''app.js''
        = Inr ''app.listen(3000); // port 8080''
   \<and> int_of_digits ` set (findall_kw ''listen'' ''app.listen(3000); // port 8080'') = {3000}
   \<and> detect_port_config [File ''app.js'' ''app.listen(80)'' 14] = None
   \<and> ports_in ''app.listen(80)'' = []"
proof -
  let ?c = "''app.listen(3000); // port 8080''"
  have f: "findall_kw ''port'' ?c = [''8080'']" "findall_kw ''PORT'' ?c = [''8080'']"
    "findall_kw ''listen'' ?c = [''3000'']" "findall_kw ''server'' ?c = []"
    by code_simp+
  have g: "findall_kw ''port'' ''app.listen(80)'' = []" "findall_kw ''PORT'' ''app.listen(80)'' = []"
    "findall_kw ''listen'' ''app.listen(80)'' = [''80'']" "findall_kw ''server'' ''app.listen(80)'' = []"
    by code_simp+
  have i: "int_of_digits ''8080'' = 8080" "int_of_digits ''3000'' = 3000"
    "int_of_digits ''80'' = 80"
    by (simp_all add: int_of_digits_def digit_val_def)
  have e: "detect_port_config [File ''app.js'' ?c 31] = Some [8080, 3000]"
    by (simp add: detect_port_config_def ports_in_def port_patterns_def f i valid_port_def
        exists_def lookup_def read_file_def port_main_files_def)
  have p: "ports_in ''app.listen(80)'' = []"
    by (simp add: ports_in_def port_patterns_def g i valid_port_def)
  have r: "exists [File ''app.js'' ?c 31] ''app.js''"
    "read_file [File ''app.js'' ?c 31] ''app.js'' = Inr ?c"
    "''app.js'' \<in> set port_main_files" "''listen'' \<in> set port_patterns"
    by (simp_all add: exists_def lookup_def read_file_def port_main_files_def port_patterns_def)
  have n: "detect_port_config [File ''app.js'' ''app.listen(80)'' 14] = None"
    using C9_port_hints [of "[File ''app.js'' ''app.listen(80)'' 14]"] p
    by (auto simp: exists_def lookup_def read_file_def port_main_files_def split: if_splits)
  show ?thesis
    using C9_port_hints [of "[File ''app.js'' ?c 31]"] e p r n f i by simp
qed

lemma hardcoded_issue_cases:
  "hardcoded_issue e = [] \<or>
   (\<exists>d. hardcoded_issue e = [\<lparr>issue_type = ''hardcoded_config'', severity = ''medium'', description = d\<rparr>])"
  by (simp add: hardcoded_issue_def split: prod.splits option.splits)

lemma hardcoded_config_issues_kind:
  "i \<in> set (hardcoded_config_issues t) \<Longrightarrow> issue_type i = ''hardcoded_config'' \<and> severity i = ''medium''"
proof -
  assume "i \<in> set (hardcoded_config_issues t)"
  then obtain e where "i \<in> set (hardcoded_issue e)"
    by (auto simp: hardcoded_config_issues_def)
  with hardcoded_issue_cases [of e] show ?thesis by auto
qed

lemma missing_file_issues_kind:
  "i \<in> set (missing_file_issues ar) \<Longrightarrow>
     issue_type i = ''missing_file'' \<and> (severity i = ''high'' \<or> severity i = ''medium'')"
  by (simp add: missing_file_issues_def Let_def split: if_splits)

lemma missing_env_issues_kind:
  "i \<in> set (missing_env_issues ar) \<Longrightarrow> issue_type i = ''missing_env'' \<and> severity i = ''low''"
  by (simp add: missing_env_issues_def Let_def split: if_splits)

lemma large_files_issues_kind:
  "i \<in> set (large_files_issues t) \<Longrightarrow> issue_type i = ''large_files'' \<and> severity i = ''medium''"
  by (simp add: large_files_issues_def Let_def split: if_splits)

text \<open>
  C3 (as amended). Every issue of the detector has a severity among \<open>high\<close>,
  \<open>medium\<close>, \<open>low\<close> and a type among \<open>missing_file\<close>, \<open>hardcoded_config\<close>,
  \<open>missing_env\<close>, \<open>large_files\<close>, whatever result the analyzer held before.
\<close>

theorem C3_issue_kinds:
  "\<forall>i \<in> set (identify_potential_issues analysis_result t).
     severity i \<in> {''high'', ''medium'', ''low''}
     \<and> issue_type i \<in> {''missing_file'', ''hardcoded_config'', ''missing_env'', ''large_files''}"
proof
  fix i
  assume "i \<in> set (identify_potential_issues analysis_result t)"
  then consider "i \<in> set (missing_file_issues analysis_result)"
    | "i \<in> set (hardcoded_config_issues t)"
    | "i \<in> set (missing_env_issues analysis_result)"
    | "i \<in> set (large_files_issues t)"
    by (auto simp: identify_potential_issues_def)
  then show "severity i \<in> {''high'', ''medium'', ''low''}
     \<and> issue_type i \<in> {''missing_file'', ''hardcoded_config'', ''missing_env'', ''large_files''}"
  proof cases
    case 1
    from missing_file_issues_kind [OF 1] show ?thesis by auto
  next
    case 2
    from hardcoded_config_issues_kind [OF 2] show ?thesis by simp
  next
    case 3
    from missing_env_issues_kind [OF 3] show ?thesis by simp
  next
    case 4
    from large_files_issues_kind [OF 4] show ?thesis by simp
  qed
qed

lemma large_example:
  "identify_potential_issues None [File ''big.bin'' [] 104857601] =
     [\<lparr>issue_type = ''missing_env'', severity = ''low'',
        description = ''No environment configuration files found''\<rparr>,
      \<lparr>issue_type = ''large_files'', severity = ''medium'',
        description = ''Large files found that may cause deployment issues: big.bin''\<rparr>]"
  by (simp add: identify_potential_issues_def missing_file_issues_def missing_env_issues_def
      hardcoded_config_issues_def hardcoded_issue_def large_files_issues_def
      scanned_extensions_def endswith_def pjoin_def)

theorem C3_issue_kinds_witness:
  "identify_potential_issues None [File ''big.bin'' [] 104857601] \<noteq> []
   \<and> severity (last (identify_potential_issues None [File ''big.bin'' [] 104857601]))
         \<in> {''high'', ''medium'', ''low''}
   \<and> issue_type (last (identify_potential_issues None [File ''big.bin'' [] 104857601]))
         \<in> {''missing_file'', ''hardcoded_config'', ''missing_env'', ''large_files''}"
proof -
  let ?t = "[File ''big.bin'' [] 104857601]"
  have ne: "identify_potential_issues None ?t \<noteq> []"
    by (simp add: large_example)
  then have "last (identify_potential_issues None ?t) \<in> set (identify_potential_issues None ?t)"
    by (rule last_in_set)
  with C3_issue_kinds [of None ?t] ne show ?thesis by blast
qed

theorem C3_claimed_kinds_counterexample:
  "map issue_type (identify_potential_issues None [File ''big.bin'' [] 104857601])
     = [''missing_env'', ''large_files'']
   \<and> ''large_files'' \<notin> {''missing_manifest'', ''hardcoded_config'', ''missing_env'', ''large_file''}"
  by (simp add: large_example)

lemma detect_primary:
  "primary (detect_project_type loads t) =
     (if has_nodejs t then ''nodejs'' else if has_python t then ''python''
      else if has_php t then ''php'' else if has_go t then ''go''
      else if has_ruby t then ''ruby'' else if has_static t then ''static'' else ''unknown'')"
  by (simp add: detect_project_type_def claim_def Let_def)

lemma detect_technologies:
  "technologies (detect_project_type loads t) =
     (if has_nodejs t then [''javascript''] else [])
     @ (if has_python t then [''python''] else [])
     @ (if has_php t then [''php''] else [])
     @ (if has_go t then [''go''] else [])
     @ (if has_ruby t then [''ruby''] else [])
     @ (if has_static t then [''html''] else [])"
  by (simp add: detect_project_type_def claim_def Let_def)

lemma matched_stacks_eq:
  "matched_stacks t =
     (if has_nodejs t then [(''nodejs'', ''javascript'', has_nodejs)] else [])
     @ (if has_python t then [(''python'', ''python'', has_python)] else [])
     @ (if has_php t then [(''php'', ''php'', has_php)] else [])
     @ (if has_go t then [(''go'', ''go'', has_go)] else [])
     @ (if has_ruby t then [(''ruby'', ''ruby'', has_ruby)] else [])
     @ (if has_static t then [(''static'', ''html'', has_static)] else [])"
  by (simp add: matched_stacks_def stack_table_def)

text \<open>
  C2. A tree with \<open>package.json\<close> is classified \<open>nodejs\<close>; a tree without it that has
  \<open>requirements.txt\<close>, \<open>setup.py\<close> or \<open>pyproject.toml\<close> is classified \<open>python\<close>;
  the primary stack is \<open>unknown\<close> exactly when the tree has no manifest of the table and
  no loose \<open>.php\<close> or \<open>.html\<close> file; the primary stack is the first stack of the table
  whose manifest is present, and every stack whose manifest is present adds its
  technology, in the order of the table, and nothing else is added.
\<close>

theorem C2_primary_stack:
  "(exists t ''package.json'' \<longrightarrow> primary (detect_project_type loads t) = ''nodejs'')
   \<and> (\<not> exists t ''package.json''
        \<and> (exists t ''requirements.txt'' \<or> exists t ''setup.py'' \<or> exists t ''pyproject.toml'')
        \<longrightarrow> primary (detect_project_type loads t) = ''python'')
   \<and> (primary (detect_project_type loads t) = ''unknown''
        \<longleftrightarrow> \<not> (exists t ''package.json'' \<or> exists t ''requirements.txt'' \<or> exists t ''setup.py''
                \<or> exists t ''pyproject.toml'' \<or> exists t ''composer.json'' \<or> exists t ''go.mod''
                \<or> exists t ''go.sum'' \<or> exists t ''Gemfile''
                \<or> loose_file t ''.php'' \<or> loose_file t ''.html''))
   \<and> primary (detect_project_type loads t)
        = (case matched_stacks t of [] \<Rightarrow> ''unknown'' | (s, tech, present) # later \<Rightarrow> s)
   \<and> technologies (detect_project_type loads t)
        = map (\<lambda>(s, tech, present). tech) (matched_stacks t)"
proof -
  have 1: "exists t ''package.json'' \<longrightarrow> primary (detect_project_type loads t) = ''nodejs''"
    by (simp add: detect_primary has_nodejs_def)
  have 2: "\<not> exists t ''package.json''
        \<and> (exists t ''requirements.txt'' \<or> exists t ''setup.py'' \<or> exists t ''pyproject.toml'')
        \<longrightarrow> primary (detect_project_type loads t) = ''python''"
    by (simp add: detect_primary has_nodejs_def has_python_def)
  have 3: "primary (detect_project_type loads t) = ''unknown''
        \<longleftrightarrow> \<not> (exists t ''package.json'' \<or> exists t ''requirements.txt'' \<or> exists t ''setup.py''
                \<or> exists t ''pyproject.toml'' \<or> exists t ''composer.json'' \<or> exists t ''go.mod''
                \<or> exists t ''go.sum'' \<or> exists t ''Gemfile''
                \<or> loose_file t ''.php'' \<or> loose_file t ''.html'')"
    by (simp add: detect_primary has_nodejs_def has_python_def has_php_def has_go_def
        has_ruby_def has_static_def)
  have 4: "primary (detect_project_type loads t)
        = (case matched_stacks t of [] \<Rightarrow> ''unknown'' | (s, tech, present) # later \<Rightarrow> s)"
    by (simp add: detect_primary matched_stacks_eq)
  have 5: "technologies (detect_project_type loads t)
        = map (\<lambda>(s, tech, present). tech) (matched_stacks t)"
    by (simp add: detect_technologies matched_stacks_eq)
  from 1 2 3 4 5 show ?thesis by blast
qed

theorem C2_primary_stack_witness:
  "\<not> exists [File ''requirements.txt'' ''flask'' 5, File ''index.html'' [] 0] ''package.json''
   \<and> exists [File ''requirements.txt'' ''flask'' 5, File ''index.html'' [] 0] ''requirements.txt''
   \<and> primary (detect_project_type (\<lambda>s. None)
         [File ''requirements.txt'' ''flask'' 5, File ''index.html'' [] 0]) = ''python''
   \<and> technologies (detect_project_type (\<lambda>s. None)
         [File ''requirements.txt'' ''flask'' 5, File ''index.html'' [] 0]) = [''python'', ''html'']"
proof -
  let ?t = "[File ''requirements.txt'' ''flask'' 5, File ''index.html'' [] 0]"
  have e: "\<not> exists ?t ''package.json''" "exists ?t ''requirements.txt''"
    by (simp_all add: exists_def lookup_def)
  have m: "map (\<lambda>(s, tech, present). tech) (matched_stacks ?t) = [''python'', ''html'']"
    by (simp add: matched_stacks_eq has_nodejs_def has_python_def has_php_def has_go_def
        has_ruby_def has_static_def loose_file_def exists_def lookup_def endswith_def)
  from C2_primary_stack [of ?t "\<lambda>s. None"] e m show ?thesis by simp
qed

lemma dict_has_Nil: "dict_has [] k = False"
  by (simp add: dict_has_def)

lemma dict_has_Cons: "dict_has ((a, b) # d) k \<longleftrightarrow> k = a \<or> dict_has d k"
  by (auto simp: dict_has_def)

lemma dict_has_set: "dict_has (dict_set d k v) q \<longleftrightarrow> q = k \<or> dict_has d q"
proof (induction d)
  case Nil
  show ?case by (simp add: dict_has_Nil dict_has_Cons)
next
  case (Cons e d)
  obtain a b where e: "e = (a, b)" by (cases e)
  show ?case using Cons.IH by (auto simp: e dict_has_Cons)
qed

lemma dict_has_merge: "dict_has (dict_merge a b) k \<longleftrightarrow> dict_has a k \<or> dict_has b k"
proof -
  have "dict_has (foldl (\<lambda>d (k, v). dict_set d k v) a b) k \<longleftrightarrow> dict_has a k \<or> dict_has b k"
  proof (induction b arbitrary: a)
    case Nil
    show ?case by (simp add: dict_has_Nil)
  next
    case (Cons e b)
    obtain q v where e: "e = (q, v)" by (cases e)
    from Cons.IH [of "dict_set a q v"] show ?case
      by (auto simp: e dict_has_set dict_has_Cons)
  qed
  then show ?thesis by (simp add: dict_merge_def)
qed

lemma detect_frameworks:
  "frameworks (detect_project_type loads t) =
     (if has_nodejs t then package_frameworks loads t else [])
     @ (if has_python t then requirements_frameworks t else [])"
  by (simp add: detect_project_type_def claim_def Let_def)

lemma mem_optional: "f \<in> set (if b then [x] else []) \<longleftrightarrow> b \<and> f = x"
  by (cases b) simp_all

lemma mem_optional4:
  "f \<in> set ((if b1 then [x1] else []) @ (if b2 then [x2] else []) @ (if b3 then [x3] else [])
              @ (if b4 then [x4] else []))
   \<longleftrightarrow> (b1 \<and> f = x1) \<or> (b2 \<and> f = x2) \<or> (b3 \<and> f = x3) \<or> (b4 \<and> f = x4)"
  by (simp only: set_append Un_iff mem_optional)

lemma mem_optional5:
  "f \<in> set ((if b1 then [x1] else []) @ (if b2 then [x2] else []) @ (if b3 then [x3] else [])
              @ (if b4 then [x4] else []) @ (if b5 then [x5] else []))
   \<longleftrightarrow> (b1 \<and> f = x1) \<or> (b2 \<and> f = x2) \<or> (b3 \<and> f = x3) \<or> (b4 \<and> f = x4) \<or> (b5 \<and> f = x5)"
  by (simp only: set_append Un_iff mem_optional)

lemma nodejs_frameworks_mem:
  "f \<in> set (nodejs_frameworks deps) \<longleftrightarrow>
     (dict_has deps ''express'' \<and> f = ''express'') \<or> (dict_has deps ''react'' \<and> f = ''react'')
     \<or> (dict_has deps ''vue'' \<and> f = ''vue'') \<or> (dict_has deps ''angular'' \<and> f = ''angular'')
     \<or> ((dict_has deps ''next'' \<or> dict_has deps ''nextjs'') \<and> f = ''nextjs'')"
  unfolding nodejs_frameworks_def by (rule mem_optional5)

lemma python_frameworks_mem:
  "f \<in> set (python_frameworks r) \<longleftrightarrow>
     (contains r ''django'' \<and> f = ''django'') \<or> (contains r ''flask'' \<and> f = ''flask'')
     \<or> (contains r ''fastapi'' \<and> f = ''fastapi'') \<or> (contains r ''streamlit'' \<and> f = ''streamlit'')"
  unfolding python_frameworks_def by (rule mem_optional4)
lemma nodejs_frameworks_names:
  "''express'' \<in> set (nodejs_frameworks deps) \<longleftrightarrow> dict_has deps ''express''"
  "''react'' \<in> set (nodejs_frameworks deps) \<longleftrightarrow> dict_has deps ''react''"
  "''vue'' \<in> set (nodejs_frameworks deps) \<longleftrightarrow> dict_has deps ''vue''"
  "''angular'' \<in> set (nodejs_frameworks deps) \<longleftrightarrow> dict_has deps ''angular''"
  "''nextjs'' \<in> set (nodejs_frameworks deps) \<longleftrightarrow> dict_has deps ''next'' \<or> dict_has deps ''nextjs''"
  "''next'' \<notin> set (nodejs_frameworks deps)"
  "''django'' \<notin> set (nodejs_frameworks deps)"
  "''flask'' \<notin> set (nodejs_frameworks deps)"
  "''fastapi'' \<notin> set (nodejs_frameworks deps)"
  "''streamlit'' \<notin> set (nodejs_frameworks deps)"
  by (simp_all add: nodejs_frameworks_mem)

lemma python_frameworks_names:
  "''django'' \<in> set (python_frameworks r) \<longleftrightarrow> contains r ''django''"
  "''flask'' \<in> set (python_frameworks r) \<longleftrightarrow> contains r ''flask''"
  "''fastapi'' \<in> set (python_frameworks r) \<longleftrightarrow> contains r ''fastapi''"
  "''streamlit'' \<in> set (python_frameworks r) \<longleftrightarrow> contains r ''streamlit''"
  "''express'' \<notin> set (python_frameworks r)"
  "''react'' \<notin> set (python_frameworks r)"
  "''vue'' \<notin> set (python_frameworks r)"
  "''angular'' \<notin> set (python_frameworks r)"
  "''nextjs'' \<notin> set (python_frameworks r)"
  "''next'' \<notin> set (python_frameworks r)"
  by (simp_all add: python_frameworks_mem)

lemma package_frameworks_cases:
  "package_frameworks loads t = [] \<or> (\<exists>deps. package_frameworks loads t = nodejs_frameworks deps)"
  by (auto simp: package_frameworks_def split: sum.splits)

lemma requirements_frameworks_cases:
  "requirements_frameworks t = [] \<or> (\<exists>r. requirements_frameworks t = python_frameworks r)"
  by (auto simp: requirements_frameworks_def split: sum.splits)

lemma frameworks_mem:
  "f \<in> set (frameworks (detect_project_type loads t)) \<longleftrightarrow>
     (has_nodejs t \<and> f \<in> set (package_frameworks loads t))
     \<or> (has_python t \<and> f \<in> set (requirements_frameworks t))"
  by (cases "has_nodejs t"; cases "has_python t") (simp_all add: detect_frameworks)
lemma load_package_has_nodejs: "load_package loads t = Inr pd \<Longrightarrow> has_nodejs t"
  by (auto simp: load_package_def read_file_def has_nodejs_def exists_def
      split: sum.splits option.splits node.splits)

lemma read_requirements:
  "read_file t ''requirements.txt'' = Inr c \<Longrightarrow>
     has_python t \<and> requirements_frameworks t = python_frameworks (lower c)"
  by (auto simp: requirements_frameworks_def read_file_def has_python_def exists_def
      split: option.splits node.splits)

lemma package_frameworks_deps:
  "load_package loads t = Inr (JObj d) \<Longrightarrow>
   dict_get d ''dependencies'' (JObj []) = JObj deps \<Longrightarrow>
   dict_get d ''devDependencies'' (JObj []) = JObj dev \<Longrightarrow>
   package_frameworks loads t = nodejs_frameworks (dict_merge deps dev)"
  by (simp add: package_frameworks_def package_dependencies_def)

lemma no_python_name_in_package:
  "''django'' \<notin> set (package_frameworks loads t)" "''flask'' \<notin> set (package_frameworks loads t)"
  "''fastapi'' \<notin> set (package_frameworks loads t)" "''streamlit'' \<notin> set (package_frameworks loads t)"
  "''next'' \<notin> set (package_frameworks loads t)"
  using package_frameworks_cases [of loads t] by (auto simp: nodejs_frameworks_names)

lemma no_nodejs_name_in_requirements:
  "''express'' \<notin> set (requirements_frameworks t)" "''react'' \<notin> set (requirements_frameworks t)"
  "''vue'' \<notin> set (requirements_frameworks t)" "''angular'' \<notin> set (requirements_frameworks t)"
  "''nextjs'' \<notin> set (requirements_frameworks t)" "''next'' \<notin> set (requirements_frameworks t)"
  using requirements_frameworks_cases [of t] by (auto simp: python_frameworks_names)

text \<open>
  C8 (as amended). When \<open>package.json\<close> loads as an object whose \<open>dependencies\<close> and
  \<open>devDependencies\<close> are objects, each of \<open>express\<close>, \<open>react\<close>, \<open>vue\<close>, \<open>angular\<close>
  is reported exactly when it is itself a key of one of the two, and \<open>nextjs\<close> is
  reported exactly when \<open>next\<close> or \<open>nextjs\<close> is such a key. When \<open>requirements.txt\<close>
  can be read, each of \<open>django\<close>, \<open>flask\<close>, \<open>fastapi\<close>, \<open>streamlit\<close> is reported
  exactly when it occurs in the lowered text of the file. \<open>next\<close> is never reported.
\<close>

theorem C8_framework_detection:
  "(load_package loads t = Inr (JObj d)
      \<and> dict_get d ''dependencies'' (JObj []) = JObj deps
      \<and> dict_get d ''devDependencies'' (JObj []) = JObj dev \<longrightarrow>
      (''express'' \<in> set (frameworks (detect_project_type loads t))
         \<longleftrightarrow> dict_has deps ''express'' \<or> dict_has dev ''express'')
      \<and> (''react'' \<in> set (frameworks (detect_project_type loads t))
         \<longleftrightarrow> dict_has deps ''react'' \<or> dict_has dev ''react'')
      \<and> (''vue'' \<in> set (frameworks (detect_project_type loads t))
         \<longleftrightarrow> dict_has deps ''vue'' \<or> dict_has dev ''vue'')
      \<and> (''angular'' \<in> set (frameworks (detect_project_type loads t))
         \<longleftrightarrow> dict_has deps ''angular'' \<or> dict_has dev ''angular'')
      \<and> (''nextjs'' \<in> set (frameworks (detect_project_type loads t))
         \<longleftrightarrow> dict_has deps ''next'' \<or> dict_has dev ''next''
              \<or> dict_has deps ''nextjs'' \<or> dict_has dev ''nextjs''))
   \<and> (read_file t ''requirements.txt'' = Inr c \<longrightarrow>
      (''django'' \<in> set (frameworks (detect_project_type loads t))
         \<longleftrightarrow> contains (lower c) ''django'')
      \<and> (''flask'' \<in> set (frameworks (detect_project_type loads t))
         \<longleftrightarrow> contains (lower c) ''flask'')
      \<and> (''fastapi'' \<in> set (frameworks (detect_project_type loads t))
         \<longleftrightarrow> contains (lower c) ''fastapi'')
      \<and> (''streamlit'' \<in> set (frameworks (detect_project_type loads t))
         \<longleftrightarrow> contains (lower c) ''streamlit''))
   \<and> ''next'' \<notin> set (frameworks (detect_project_type loads t))"
proof (intro conjI impI)
  assume a: "load_package loads t = Inr (JObj d)
      \<and> dict_get d ''dependencies'' (JObj []) = JObj deps
      \<and> dict_get d ''devDependencies'' (JObj []) = JObj dev"
  then have n: "has_nodejs t"
    and p: "package_frameworks loads t = nodejs_frameworks (dict_merge deps dev)"
    by (auto intro: load_package_has_nodejs package_frameworks_deps)
  show "''express'' \<in> set (frameworks (detect_project_type loads t))
         \<longleftrightarrow> dict_has deps ''express'' \<or> dict_has dev ''express''"
    using n no_nodejs_name_in_requirements [of t]
    by (simp add: frameworks_mem p nodejs_frameworks_names dict_has_merge)
  show "''react'' \<in> set (frameworks (detect_project_type loads t))
         \<longleftrightarrow> dict_has deps ''react'' \<or> dict_has dev ''react''"
    using n no_nodejs_name_in_requirements [of t]
    by (simp add: frameworks_mem p nodejs_frameworks_names dict_has_merge)
  show "''vue'' \<in> set (frameworks (detect_project_type loads t))
         \<longleftrightarrow> dict_has deps ''vue'' \<or> dict_has dev ''vue''"
    using n no_nodejs_name_in_requirements [of t]
    by (simp add: frameworks_mem p nodejs_frameworks_names dict_has_merge)
  show "''angular'' \<in> set (frameworks (detect_project_type loads t))
         \<longleftrightarrow> dict_has deps ''angular'' \<or> dict_has dev ''angular''"
    using n no_nodejs_name_in_requirements [of t]
    by (simp add: frameworks_mem p nodejs_frameworks_names dict_has_merge)
  show "''nextjs'' \<in> set (frameworks (detect_project_type loads t))
         \<longleftrightarrow> dict_has deps ''next'' \<or> dict_has dev ''next''
              \<or> dict_has deps ''nextjs'' \<or> dict_has dev ''nextjs''"
    using n no_nodejs_name_in_requirements [of t]
    by (simp add: frameworks_mem p nodejs_frameworks_names dict_has_merge)
next
  assume "read_file t ''requirements.txt'' = Inr c"
  then have y: "has_python t" and r: "requirements_frameworks t = python_frameworks (lower c)"
    using read_requirements by blast+
  show "''django'' \<in> set (frameworks (detect_project_type loads t))
         \<longleftrightarrow> contains (lower c) ''django''"
    using y no_python_name_in_package [of loads t]
    by (simp add: frameworks_mem r python_frameworks_names)
  show "''flask'' \<in> set (frameworks (detect_project_type loads t))
         \<longleftrightarrow> contains (lower c) ''flask''"
    using y no_python_name_in_package [of loads t]
    by (simp add: frameworks_mem r python_frameworks_names)
  show "''fastapi'' \<in> set (frameworks (detect_project_type loads t))
         \<longleftrightarrow> contains (lower c) ''fastapi''"
    using y no_python_name_in_package [of loads t]
    by (simp add: frameworks_mem r python_frameworks_names)
  show "''streamlit'' \<in> set (frameworks (detect_project_type loads t))
         \<longleftrightarrow> contains (lower c) ''streamlit''"
    using y no_python_name_in_package [of loads t]
    by (simp add: frameworks_mem r python_frameworks_names)
next
  show "''next'' \<notin> set (frameworks (detect_project_type loads t))"
    using no_python_name_in_package [of loads t] no_nodejs_name_in_requirements [of t]
    by (simp add: frameworks_mem)
qed
theorem C8_framework_detection_witness:
  \<open>load_package loads_example
       [File ''package.json'' ''{"dependencies": {"express": "4.18.2"}}'' 39,
        File ''requirements.txt'' ''Flask==2.3'' 10]
     = Inr (JObj [(''dependencies'', JObj [(''express'', JStr ''4.18.2'')])])
   \<and> read_file
       [File ''package.json'' ''{"dependencies": {"express": "4.18.2"}}'' 39,
        File ''requirements.txt'' ''Flask==2.3'' 10] ''requirements.txt''
     = Inr ''Flask==2.3''
   \<and> dict_has [(''express'', JStr ''4.18.2'')] ''express''
   \<and> ''express'' \<in> set (frameworks (detect_project_type loads_example
       [File ''package.json'' ''{"dependencies": {"express": "4.18.2"}}'' 39,
        File ''requirements.txt'' ''Flask==2.3'' 10]))
   \<and> contains (lower ''Flask==2.3'') ''flask''
   \<and> ''flask'' \<in> set (frameworks (detect_project_type loads_example
       [File ''package.json'' ''{"dependencies": {"express": "4.18.2"}}'' 39,
        File ''requirements.txt'' ''Flask==2.3'' 10]))\<close>
proof -
  let ?t = \<open>[File ''package.json'' ''{"dependencies": {"express": "4.18.2"}}'' 39,
        File ''requirements.txt'' ''Flask==2.3'' 10]\<close>
  let ?d = "[(''dependencies'', JObj [(''express'', JStr ''4.18.2'')])]"
  have l: "load_package loads_example ?t = Inr (JObj ?d)"
    by (simp add: load_package_def read_file_def lookup_def loads_example_def)
  have g: "dict_get ?d ''dependencies'' (JObj []) = JObj [(''express'', JStr ''4.18.2'')]"
    "dict_get ?d ''devDependencies'' (JObj []) = JObj []"
    by (simp_all add: dict_get_def)
  have r: "read_file ?t ''requirements.txt'' = Inr ''Flask==2.3''"
    by (simp add: read_file_def lookup_def)
  have h: "dict_has [(''express'', JStr ''4.18.2'')] ''express''"
    by (simp add: dict_has_def)
  have c: "contains (lower ''Flask==2.3'') ''flask''"
    by code_simp
  from C8_framework_detection [of loads_example ?t ?d "[(''express'', JStr ''4.18.2'')]" "[]"
      "''Flask==2.3''"] l g r h c
  show ?thesis by simp
qed

theorem C8_substring_counterexample:
  \<open>load_package loads_example
       [File ''package.json'' ''{"dependencies": {"express-session": "1.17.3"}}'' 47]
     = Inr (JObj [(''dependencies'', JObj [(''express-session'', JStr ''1.17.3'')])])
   \<and> contains ''express-session'' ''express''
   \<and> frameworks (detect_project_type loads_example
       [File ''package.json'' ''{"dependencies": {"express-session": "1.17.3"}}'' 47]) = []\<close>
proof -
  let ?t = \<open>[File ''package.json'' ''{"dependencies": {"express-session": "1.17.3"}}'' 47]\<close>
  have l: "load_package loads_example ?t
      = Inr (JObj [(''dependencies'', JObj [(''express-session'', JStr ''1.17.3'')])])"
    by (simp add: load_package_def read_file_def lookup_def loads_example_def)
  have c: "contains ''express-session'' ''express''"
    by simp
  have n: "has_nodejs ?t" "\<not> has_python ?t"
    by (simp_all add: has_nodejs_def has_python_def exists_def lookup_def)
  have f: "package_frameworks loads_example ?t = []"
    by (simp add: package_frameworks_def l package_dependencies_def dict_get_def dict_merge_def
        nodejs_frameworks_def dict_has_def)
  from l c n f show ?thesis by (simp add: detect_frameworks)
qed

lemma write_and_note_ledger:
  "\<exists>new. snd (snd (write_and_note n c note st)) = snd st @ new"
  by (cases st) (auto simp: write_and_note_def split: sum.splits)

lemma and_then_cases:
  "and_then r f = (case fst r of None \<Rightarrow> f (snd r) | Some e \<Rightarrow> r)"
  by (simp add: and_then_def split: prod.splits option.splits)

lemma and_then_ledger:
  assumes "\<exists>new. snd (snd r) = fixes @ new"
    and "\<And>st. \<exists>new. snd (snd (f st)) = snd st @ new"
  shows "\<exists>new. snd (snd (and_then r f)) = fixes @ new"
proof (cases "fst r")
  case None
  from assms(1) obtain n1 where "snd (snd r) = fixes @ n1" by auto
  moreover from assms(2) [of "snd r"] obtain n2 where "snd (snd (f (snd r))) = snd (snd r) @ n2"
    by auto
  ultimately show ?thesis using None by (simp add: and_then_cases)
next
  case (Some x)
  with assms(1) show ?thesis by (simp add: and_then_cases)
qed

lemma fix_package_json_ledger:
  "\<exists>new. snd (fix_package_json loads dumps outside st) = snd st @ new"
  by (cases st) (auto simp: fix_package_json_def split: sum.splits prod.splits)

lemma fix_nodejs_main_file_ledger:
  "\<exists>new. snd (fix_nodejs_main_file n st) = snd st @ new"
  by (cases st) (auto simp: fix_nodejs_main_file_def split: sum.splits prod.splits)

lemma fix_nodejs_issues_ledger:
  "\<exists>new. snd (fix_nodejs_issues loads dumps outside st) = snd st @ new"
proof -
  obtain n1 where 1: "snd (fix_package_json loads dumps outside st) = snd st @ n1"
    using fix_package_json_ledger by blast
  show ?thesis
  proof (cases "filter (exists (fst (fix_package_json loads dumps outside st)))
                  [''app.js'', ''server.js'', ''index.js'', ''main.js'']")
    case Nil
    with 1 show ?thesis by (simp add: fix_nodejs_issues_def Let_def)
  next
    case (Cons m ms)
    obtain n2 where "snd (fix_nodejs_main_file m (fix_package_json loads dumps outside st))
        = snd (fix_package_json loads dumps outside st) @ n2"
      using fix_nodejs_main_file_ledger by blast
    with 1 Cons show ?thesis by (simp add: fix_nodejs_issues_def Let_def)
  qed
qed

lemma fix_django_settings_ledger:
  "\<exists>new. snd (fix_django_settings st) = snd st @ new"
  by (cases st) (auto simp: fix_django_settings_def split: sum.splits prod.splits)

lemma fix_python_main_file_ledger:
  "\<exists>new. snd (fix_python_main_file a n st) = snd st @ new"
proof (cases "read_file (fst st) n")
  case (Inl e)
  then show ?thesis by (simp add: fix_python_main_file_def)
next
  case (Inr original)
  obtain d where d: "snd (fix_django_settings st) = snd st @ d"
    using fix_django_settings_ledger by blast
  show ?thesis
    using Inr d
    by (auto simp: fix_python_main_file_def Let_def split: prod.splits sum.splits)
qed
lemma python_main_loop_ledger:
  "\<exists>new. snd (foldl (\<lambda>st main_file.
                        if exists (fst st) main_file then fix_python_main_file a main_file st
                        else st) st fs) = snd st @ new"
proof (induction fs arbitrary: st)
  case Nil
  show ?case by simp
next
  case (Cons f fs)
  let ?st = "if exists (fst st) f then fix_python_main_file a f st else st"
  obtain n1 where 1: "snd ?st = snd st @ n1"
    using fix_python_main_file_ledger [of a f st] by (cases "exists (fst st) f") auto
  from Cons.IH [of ?st] obtain n2 where
    "snd (foldl (\<lambda>st main_file.
                        if exists (fst st) main_file then fix_python_main_file a main_file st
                        else st) ?st fs) = snd ?st @ n2"
    by blast
  with 1 show ?case by simp
qed

lemma fix_python_issues_ledger:
  "\<exists>new. snd (snd (fix_python_issues a st)) = snd st @ new"
proof -
  let ?st = "foldl (\<lambda>st main_file.
                        if exists (fst st) main_file then fix_python_main_file a main_file st
                        else st) st python_main_files"
  obtain n1 where 1: "snd ?st = snd st @ n1"
    using python_main_loop_ledger by blast
  obtain n2 where 2: "snd (snd (create_python_run_script ?st)) = snd ?st @ n2"
    using write_and_note_ledger [of "''run.py''" run_content "''Created Python run script''" ?st]
    by (auto simp: create_python_run_script_def)
  from 1 2 show ?thesis
    by (cases "list_ex (exists (fst ?st)) python_main_files")
       (simp_all add: fix_python_issues_def Let_def)
qed

lemma fix_php_issues_ledger:
  "\<exists>new. snd (snd (fix_php_issues st)) = snd st @ new"
  using write_and_note_ledger by (cases "exists (fst st) ''.htaccess''") (auto simp: fix_php_issues_def)

lemma fix_port_binding_ledger:
  "\<exists>new. snd (fix_port_binding project_dir st) = snd st @ new"
  by (cases st) (simp add: fix_port_binding_def)

lemma fix_environment_config_ledger:
  "\<exists>new. snd (snd (fix_environment_config a st)) = snd st @ new"
  using write_and_note_ledger by (cases "environment_files a = []") (auto simp: fix_environment_config_def)

lemma fix_hardcoded_configs_ledger:
  "\<exists>new. snd (snd (fix_hardcoded_configs a st)) = snd st @ new"
  using write_and_note_ledger
  by (cases "filter (\<lambda>i. issue_type i = ''hardcoded_config'') (potential_issues a) = []")
     (auto simp: fix_hardcoded_configs_def Let_def)

lemma create_startup_script_ledger:
  "\<exists>new. snd (snd (create_startup_script a st)) = snd st @ new"
  using write_and_note_ledger
  by (auto simp: create_startup_script_def create_nodejs_startup_def create_python_startup_def
      Let_def)

lemma type_fixes_ledger:
  "\<exists>new. snd (snd (type_fixes loads dumps outside a st)) = snd st @ new"
  using fix_nodejs_issues_ledger [of loads dumps outside st] fix_python_issues_ledger [of a st]
    fix_php_issues_ledger [of st]
  by (auto simp: type_fixes_def)

lemma run_fixes_ledger:
  "\<exists>new. snd (snd (run_fixes loads dumps outside project_dir a st)) = snd st @ new"
  unfolding run_fixes_def
  by (intro and_then_ledger type_fixes_ledger fix_environment_config_ledger
      fix_hardcoded_configs_ledger create_startup_script_ledger)
     (simp add: fix_port_binding_ledger)

lemma apply_fixes_cases:
  "apply_fixes loads dumps outside project_dir a st =
     (case fst (run_fixes loads dumps outside project_dir a st) of
        None \<Rightarrow> (snd (snd (run_fixes loads dumps outside project_dir a st)) \<noteq> [],
                 snd (run_fixes loads dumps outside project_dir a st))
      | Some e \<Rightarrow> (False, snd (run_fixes loads dumps outside project_dir a st)))"
  by (simp add: apply_fixes_def split: prod.splits option.splits)
lemma env_dir_report_issues:
  "potential_issues env_dir_report = identify_potential_issues None env_dir_tree"
proof -
  have "contains (lower ''host=localhost'') ''localhost''"
    by code_simp
  then show ?thesis
    by (simp add: env_dir_report_def env_dir_tree_def identify_potential_issues_def
        missing_file_issues_def missing_env_issues_def hardcoded_config_issues_def
        hardcoded_issue_def large_files_issues_def scanned_extensions_def endswith_def
        pjoin_def hardcoded_patterns_def)
qed

lemma rebind_example:
  "rebind ''host=localhost'' = ''host=0.0.0.0''" "rebind ''host=0.0.0.0'' = ''host=0.0.0.0''"
  by code_simp+

lemma env_dir_first_call:
  "run_fixes loads dumps outside [] env_dir_report (env_dir_tree, [])
     = (Some IsADirectoryError,
        ([Dir ''.env'' [], File ''a.js'' ''host=0.0.0.0'' 12], [''Fixed host binding in a.js'']))"
  by (simp add: run_fixes_def type_fixes_def env_dir_report_def env_dir_tree_def and_then_def
      fix_port_binding_def fix_file_bindings_def binding_note_def binding_extensions_def
      skipped_dirs_def endswith_def pjoin_def rebind_example
      fix_environment_config_def write_and_note_def write_file_def lookup_def)

lemma env_dir_second_call:
  "run_fixes loads dumps outside [] env_dir_report
       ([Dir ''.env'' [], File ''a.js'' ''host=0.0.0.0'' 12], [''Fixed host binding in a.js''])
     = (Some IsADirectoryError,
        ([Dir ''.env'' [], File ''a.js'' ''host=0.0.0.0'' 12], [''Fixed host binding in a.js'']))"
  by (simp add: run_fixes_def type_fixes_def env_dir_report_def and_then_def
      fix_port_binding_def fix_file_bindings_def binding_note_def binding_extensions_def
      skipped_dirs_def endswith_def pjoin_def rebind_example
      fix_environment_config_def write_and_note_def write_file_def lookup_def)

text \<open>
  C10 (as amended). \<open>apply_fixes\<close> only appends to the ledger the engine holds, so the
  ledger accumulates over the calls on one engine. A call returns \<open>True\<close> whenever the
  ledger it started with was not empty, provided no exception reaches its \<open>except\<close>
  clause; a call that ends there returns \<open>False\<close>, whatever the ledger holds.
\<close>

theorem C10_ledger_accumulates:
  "(\<exists>new. get_fixes_applied (snd (apply_fixes loads dumps outside project_dir a (t, fixes))) = fixes @ new)
   \<and> (fixes \<noteq> [] \<and> fst (run_fixes loads dumps outside project_dir a (t, fixes)) = None
        \<longrightarrow> fst (apply_fixes loads dumps outside project_dir a (t, fixes)))
   \<and> (fst (run_fixes loads dumps outside project_dir a (t, fixes)) \<noteq> None
        \<longrightarrow> \<not> fst (apply_fixes loads dumps outside project_dir a (t, fixes)))"
proof -
  obtain new where n: "snd (snd (run_fixes loads dumps outside project_dir a (t, fixes))) = fixes @ new"
    using run_fixes_ledger [of loads dumps outside project_dir a "(t, fixes)"] by auto
  have s: "snd (apply_fixes loads dumps outside project_dir a (t, fixes))
      = snd (run_fixes loads dumps outside project_dir a (t, fixes))"
    by (simp add: apply_fixes_cases split: option.splits)
  have 1: "\<exists>new. get_fixes_applied (snd (apply_fixes loads dumps outside project_dir a (t, fixes)))
      = fixes @ new"
    using n s by (simp add: get_fixes_applied_def)
  have 2: "fixes \<noteq> [] \<and> fst (run_fixes loads dumps outside project_dir a (t, fixes)) = None
        \<longrightarrow> fst (apply_fixes loads dumps outside project_dir a (t, fixes))"
    using n by (simp add: apply_fixes_cases)
  have 3: "fst (run_fixes loads dumps outside project_dir a (t, fixes)) \<noteq> None
        \<longrightarrow> \<not> fst (apply_fixes loads dumps outside project_dir a (t, fixes))"
    by (auto simp: apply_fixes_cases)
  from 1 2 3 show ?thesis by blast
qed

theorem C10_ledger_accumulates_witness:
  "[''Fixed host binding in a.js''] \<noteq> []
   \<and> fst (run_fixes loads_example dumps_example outside_example [] (env_dir_report\<lparr>environment_files := [''.env'']\<rparr>)
        ([File ''.env'' [] 0, File ''a.js'' ''host=0.0.0.0'' 12], [''Fixed host binding in a.js'']))
       = None
   \<and> fst (apply_fixes loads_example dumps_example outside_example [] (env_dir_report\<lparr>environment_files := [''.env'']\<rparr>)
        ([File ''.env'' [] 0, File ''a.js'' ''host=0.0.0.0'' 12], [''Fixed host binding in a.js'']))
   \<and> apply_fixes loads_example dumps_example outside_example []
        (env_dir_report\<lparr>environment_files := [''.env''], potential_issues := []\<rparr>)
        ([File ''.env'' [] 0, File ''a.rb'' ''host=localhost'' 14], new_fixes_applied)
       = (True, ([File ''.env'' [] 0, File ''a.rb'' ''host=0.0.0.0'' 12],
                 [''Fixed host binding in a.rb'']))
   \<and> fst (run_fixes loads_example dumps_example outside_example []
        (env_dir_report\<lparr>environment_files := [''.env''], potential_issues := []\<rparr>)
        ([File ''.env'' [] 0, File ''a.rb'' ''host=0.0.0.0'' 12], [''Fixed host binding in a.rb'']))
       = None
   \<and> apply_fixes loads_example dumps_example outside_example []
        (env_dir_report\<lparr>environment_files := [''.env''], potential_issues := []\<rparr>)
        ([File ''.env'' [] 0, File ''a.rb'' ''host=0.0.0.0'' 12], [''Fixed host binding in a.rb''])
       = (True, ([File ''.env'' [] 0, File ''a.rb'' ''host=0.0.0.0'' 12],
                 [''Fixed host binding in a.rb'']))"
proof -
  let ?a = "env_dir_report\<lparr>environment_files := [''.env'']\<rparr>"
  let ?st = "([File ''.env'' [] 0, File ''a.js'' ''host=0.0.0.0'' 12], [''Fixed host binding in a.js''])"
  let ?b = "env_dir_report\<lparr>environment_files := [''.env''], potential_issues := []\<rparr>"
  let ?t = "[File ''.env'' [] 0, File ''a.rb'' ''host=0.0.0.0'' 12]"
  have r: "fst (run_fixes loads_example dumps_example outside_example [] ?a ?st) = None"
    by (simp add: run_fixes_def type_fixes_def env_dir_report_def and_then_def
      fix_port_binding_def fix_file_bindings_def binding_note_def binding_extensions_def
      skipped_dirs_def endswith_def pjoin_def rebind_example
      fix_environment_config_def fix_hardcoded_configs_def guide_content_def
      create_startup_script_def write_and_note_def write_file_def lookup_def)
  have f: "run_fixes loads_example dumps_example outside_example [] ?b
        ([File ''.env'' [] 0, File ''a.rb'' ''host=localhost'' 14], [])
      = (None, (?t, [''Fixed host binding in a.rb'']))"
    by (simp add: run_fixes_def type_fixes_def env_dir_report_def and_then_def
      fix_port_binding_def fix_file_bindings_def binding_note_def binding_extensions_def
      skipped_dirs_def endswith_def pjoin_def rebind_example
      fix_environment_config_def fix_hardcoded_configs_def
      create_startup_script_def)
  have s: "run_fixes loads_example dumps_example outside_example [] ?b
        (?t, [''Fixed host binding in a.rb''])
      = (None, (?t, [''Fixed host binding in a.rb'']))"
    by (simp add: run_fixes_def type_fixes_def env_dir_report_def and_then_def
      fix_port_binding_def fix_file_bindings_def binding_note_def binding_extensions_def
      skipped_dirs_def endswith_def pjoin_def rebind_example
      fix_environment_config_def fix_hardcoded_configs_def
      create_startup_script_def)
  have s': "fst (run_fixes loads_example dumps_example outside_example [] ?b
        (?t, [''Fixed host binding in a.rb''])) = None"
    by (simp add: s)
  have 1: "apply_fixes loads_example dumps_example outside_example [] ?b
        ([File ''.env'' [] 0, File ''a.rb'' ''host=localhost'' 14], new_fixes_applied)
       = (True, (?t, [''Fixed host binding in a.rb'']))"
    by (simp add: apply_fixes_def f new_fixes_applied_def)
  have 2: "snd (apply_fixes loads_example dumps_example outside_example [] ?b
        (?t, [''Fixed host binding in a.rb'']))
       = (?t, [''Fixed host binding in a.rb''])"
    by (simp add: apply_fixes_def s)
  from C10_ledger_accumulates [of loads_example dumps_example outside_example "[]" ?b ?t
      "[''Fixed host binding in a.rb'']"] s'
  have 3: "fst (apply_fixes loads_example dumps_example outside_example [] ?b
        (?t, [''Fixed host binding in a.rb'']))"
    by simp
  have 4: "apply_fixes loads_example dumps_example outside_example [] ?b
        (?t, [''Fixed host binding in a.rb''])
       = (True, (?t, [''Fixed host binding in a.rb'']))"
    using 2 3 by (simp add: prod_eq_iff)
  from C10_ledger_accumulates [of loads_example dumps_example outside_example "[]" ?a
      "[File ''.env'' [] 0, File ''a.js'' ''host=0.0.0.0'' 12]" "[''Fixed host binding in a.js'']"] r
  have 5: "fst (apply_fixes loads_example dumps_example outside_example [] ?a ?st)"
    by simp
  from r 1 s' 4 5 show ?thesis by simp
qed

theorem C10_later_call_counterexample:
  "apply_fixes loads_example dumps_example outside_example [] env_dir_report (env_dir_tree, new_fixes_applied)
     = (False, ([Dir ''.env'' [], File ''a.js'' ''host=0.0.0.0'' 12],
                [''Fixed host binding in a.js'']))
   \<and> apply_fixes loads_example dumps_example outside_example [] env_dir_report
       ([Dir ''.env'' [], File ''a.js'' ''host=0.0.0.0'' 12], [''Fixed host binding in a.js''])
     = (False, ([Dir ''.env'' [], File ''a.js'' ''host=0.0.0.0'' 12],
                [''Fixed host binding in a.js'']))"
  by (simp add: apply_fixes_def env_dir_first_call env_dir_second_call new_fixes_applied_def)

text \<open>
  C6. A failure on one file is to be caught where it happens, so that the rules after it
  still run. On the project whose \<open>.env\<close> is a directory, \<open>_fix_environment_config\<close>
  raises when it opens \<open>.env\<close> for writing and has no handler of its own: the exception
  ends \<open>apply_fixes\<close>, which returns \<open>False\<close>. The configuration guide, which the
  report asks for and \<open>_fix_hardcoded_configs\<close> would have written next, is not
  written.
\<close>

theorem C6_env_failure_ends_apply_fixes:
  "apply_fixes loads_example dumps_example outside_example [] env_dir_report (env_dir_tree, new_fixes_applied)
     = (False, ([Dir ''.env'' [], File ''a.js'' ''host=0.0.0.0'' 12],
                [''Fixed host binding in a.js'']))
   \<and> fst (fix_environment_config env_dir_report
            ([Dir ''.env'' [], File ''a.js'' ''host=0.0.0.0'' 12], [''Fixed host binding in a.js'']))
       = Some IsADirectoryError
   \<and> \<not> exists [Dir ''.env'' [], File ''a.js'' ''host=0.0.0.0'' 12] ''DEPLOYMENT_NOTES.md''
   \<and> get_fixes_applied (snd (fix_hardcoded_configs env_dir_report
            ([Dir ''.env'' [], File ''a.js'' ''host=0.0.0.0'' 12], [''Fixed host binding in a.js''])))
       = [''Fixed host binding in a.js'', ''Created deployment configuration guide'']"
proof -
  have 1: "apply_fixes loads_example dumps_example outside_example [] env_dir_report (env_dir_tree, new_fixes_applied)
     = (False, ([Dir ''.env'' [], File ''a.js'' ''host=0.0.0.0'' 12],
                [''Fixed host binding in a.js'']))"
    by (simp add: apply_fixes_def env_dir_first_call new_fixes_applied_def)
  have 2: "fst (fix_environment_config env_dir_report
            ([Dir ''.env'' [], File ''a.js'' ''host=0.0.0.0'' 12], [''Fixed host binding in a.js'']))
       = Some IsADirectoryError"
    by (simp add: fix_environment_config_def env_dir_report_def write_and_note_def
        write_file_def lookup_def)
  have 3: "\<not> exists [Dir ''.env'' [], File ''a.js'' ''host=0.0.0.0'' 12] ''DEPLOYMENT_NOTES.md''"
    by (simp add: exists_def lookup_def)
  have 4: "get_fixes_applied (snd (fix_hardcoded_configs env_dir_report
            ([Dir ''.env'' [], File ''a.js'' ''host=0.0.0.0'' 12], [''Fixed host binding in a.js''])))
       = [''Fixed host binding in a.js'', ''Created deployment configuration guide'']"
    by (simp add: fix_hardcoded_configs_def env_dir_report_def write_and_note_def
        write_file_def lookup_def get_fixes_applied_def Let_def)
  from 1 2 3 4 show ?thesis by blast
qed

text \<open>
  C7. The host contexts are matched without regard to case, and the literal in a matched
  context is to be replaced by the wildcard address. The replacement is made by
  \<open>str.replace\<close> on the matched text, which looks for the literal in lower case only:
  the context \<open>host = "LOCALHOST"\<close> is matched and comes back unchanged, while
  \<open>host = "localhost"\<close> is rewritten.
\<close>

theorem C7_upper_case_literal_kept:
  \<open>re_search (host_matcher ''host'' ''localhost'' ''0.0.0.0'') ''host = "LOCALHOST"''
   \<and> rebind ''host = "LOCALHOST"'' = ''host = "LOCALHOST"''
   \<and> rebind ''HOST = "localhost"'' = ''HOST = "0.0.0.0"''\<close>
  by code_simp









lemma py_report_issues:
  "potential_issues py_report = identify_potential_issues None py_tree"
  "potential_issues py_report_fixed = identify_potential_issues None py_tree_fixed"
proof -
  have c: "contains (lower ''host=localhost'') ''localhost''"
    "find (\<lambda>(pattern, d). contains (lower ''host=0.0.0.0'') pattern) hardcoded_patterns = None"
    by code_simp+
  show "potential_issues py_report = identify_potential_issues None py_tree"
    using c(1)
    by (simp add: py_report_def py_tree_def identify_potential_issues_def
        missing_file_issues_def missing_env_issues_def hardcoded_config_issues_def
        hardcoded_issue_def large_files_issues_def scanned_extensions_def endswith_def
        pjoin_def hardcoded_patterns_def)
  have z: "\<not> 104857600 < length env_content" "\<not> 104857600 < length python_start_content"
    "\<not> 104857600 < length (guide_content [\<lparr>issue_type = ''hardcoded_config'', severity = ''medium'',
           description = ''Hardcoded localhost references found in app.py''\<rparr>])"
    by (simp_all add: env_content_def python_start_content_def guide_content_def guide_head_def
        guide_tail_def)
  show "potential_issues py_report_fixed = identify_potential_issues None py_tree_fixed"
    using c(2) z
    by (simp add: py_report_fixed_def py_tree_fixed_def identify_potential_issues_def
        missing_file_issues_def missing_env_issues_def hardcoded_config_issues_def
        hardcoded_issue_def large_files_issues_def scanned_extensions_def endswith_def
        pjoin_def)
qed







subsection \<open>Facts about texts and substitution\<close>

lemma startswith_iff: "startswith s p \<longleftrightarrow> (\<exists>b. s = p @ b)"
  by (induction s p rule: startswith.induct) auto

lemma startswith_append: "startswith (p @ b) p"
  by (simp add: startswith_iff)

lemma contains_iff: "contains s p \<longleftrightarrow> (\<exists>a b. s = a @ p @ b)"
proof (induction s)
  case Nil
  show ?case by auto
next
  case (Cons c cs)
  show ?case
  proof
    assume "contains (c # cs) p"
    then consider "startswith (c # cs) p" | "contains cs p" by auto
    then show "\<exists>a b. c # cs = a @ p @ b"
    proof cases
      case 1
      then obtain b where "c # cs = p @ b" by (auto simp: startswith_iff)
      then have "c # cs = [] @ p @ b" by simp
      then show ?thesis by blast
    next
      case 2
      with Cons.IH obtain a b where "cs = a @ p @ b" by auto
      then have "c # cs = (c # a) @ p @ b" by simp
      then show ?thesis by blast
    qed
  next
    assume "\<exists>a b. c # cs = a @ p @ b"
    then obtain a b where e: "c # cs = a @ p @ b" by auto
    show "contains (c # cs) p"
    proof (cases a)
      case Nil
      with e have "startswith (c # cs) p" by (simp add: startswith_iff)
      then show ?thesis by simp
    next
      case (Cons x a')
      with e have "cs = a' @ p @ b" by simp
      with Cons.IH have "contains cs p" by blast
      then show ?thesis by simp
    qed
  qed
qed

lemma contains_trans: "contains s p \<Longrightarrow> contains p q \<Longrightarrow> contains s q"
proof -
  assume "contains s p" "contains p q"
  then obtain a b a' b' where "s = a @ p @ b" "p = a' @ q @ b'"
    by (auto simp: contains_iff)
  then have "s = (a @ a') @ q @ (b' @ b)" by simp
  then show ?thesis unfolding contains_iff by blast
qed

lemma re_sub_None: "m (c # cs) = None \<Longrightarrow> re_sub m (c # cs) = c # re_sub m cs"
  by (simp add: re_sub.simps)

lemma re_sub_Some:
  "m (c # cs) = Some (r, rest) \<Longrightarrow> length rest \<le> length cs \<Longrightarrow>
     re_sub m (c # cs) = r @ re_sub m rest"
  by (simp add: re_sub.simps)

lemma re_sub_not_found: "\<not> re_search m s \<Longrightarrow> re_sub m s = s"
proof (induction s)
  case Nil
  show ?case by (simp add: re_sub.simps)
next
  case (Cons c cs)
  from Cons.prems have n: "m (c # cs) = None" by (cases "m (c # cs)") auto
  from Cons have "re_sub m cs = cs" by simp
  with n show ?case by (simp add: re_sub_None)
qed

lemma sub_if_found_eq: "sub_if_found m c = re_sub m c"
  by (simp add: sub_if_found_def re_sub_not_found)

lemma re_search_append: "re_search m t \<Longrightarrow> re_search m (a @ t)"
  by (induction a) simp_all

text \<open>A text \<open>t\<close> that no match can reach into from the left: the search in \<open>a @ t\<close>
  is the search in \<open>a\<close> followed by the search in \<open>t\<close>.\<close>

lemma re_sub_append_local:
  assumes "\<And>s. s \<noteq> [] \<Longrightarrow> m (s @ t) = map_option (\<lambda>(r, rest). (r, rest @ t)) (m s)"
  shows "re_sub m (a @ t) = re_sub m a @ re_sub m t"
  using assms
proof (induction m a rule: re_sub.induct)
  case (1 m)
  show ?case by (simp add: re_sub.simps)
next
  case (2 m c cs)
  have ext: "m (c # cs @ t) = map_option (\<lambda>(r, rest). (r, rest @ t)) (m (c # cs))"
    using "2.prems" [of "c # cs"] by simp
  show ?case
  proof (cases "m (c # cs)")
    case None
    with ext have "m (c # cs @ t) = None" by simp
    then have "re_sub m ((c # cs) @ t) = c # re_sub m (cs @ t)"
      by (simp add: re_sub_None)
    also have "re_sub m (cs @ t) = re_sub m cs @ re_sub m t"
      using "2.IH"(1) [OF None] "2.prems" by blast
    finally show ?thesis using None by (simp add: re_sub_None)
  next
    case (Some x)
    obtain r rest where x: "x = (r, rest)" by (cases x)
    from ext Some x have e: "m (c # cs @ t) = Some (r, rest @ t)" by simp
    show ?thesis
    proof (cases "length rest \<le> length cs")
      case True
      then have "re_sub m ((c # cs) @ t) = r @ re_sub m (rest @ t)"
        using e by (simp add: re_sub_Some)
      also have "re_sub m (rest @ t) = re_sub m rest @ re_sub m t"
        using "2.IH"(2) [OF Some x [symmetric] True] "2.prems" by blast
      finally show ?thesis using Some x True by (simp add: re_sub_Some)
    next
      case False
      then have "re_sub m ((c # cs) @ t) = c # re_sub m (cs @ t)"
        using e by (simp add: re_sub.simps)
      also have "re_sub m (cs @ t) = re_sub m cs @ re_sub m t"
        using "2.IH"(3) [OF Some x [symmetric] False] "2.prems" by blast
      finally show ?thesis using Some x False by (simp add: re_sub.simps)
    qed
  qed
qed

text \<open>A text \<open>p\<close> in which no match can start is copied.\<close>

lemma re_sub_skip:
  "(\<And>c x. c \<in> set p \<Longrightarrow> m (c # x) = None) \<Longrightarrow> re_sub m (p @ b) = p @ re_sub m b"
  by (induction p) (simp_all add: re_sub_None)

lemma listen_bare_dot: "listen_bare (c # x) \<noteq> None \<Longrightarrow> c = CHR ''.''"
  by (auto simp: listen_bare_def lit_def split: if_splits)

lemma listen_env_dot: "listen_env (c # x) \<noteq> None \<Longrightarrow> c = CHR ''.''"
  by (auto simp: listen_env_def lit_def split: if_splits)

lemma listen_bare_repl:
  "listen_bare s = Some (r, rest) \<Longrightarrow> startswith r ''.listen(''"
  by (auto simp: listen_bare_def listen_call_def Option.bind_eq_Some_conv split: prod.splits)

lemma listen_env_repl:
  "listen_env s = Some (r, rest) \<Longrightarrow> startswith r ''.listen(''"
  by (auto simp: listen_env_def listen_call_def Option.bind_eq_Some_conv split: prod.splits)
lemma contains_Cons: "contains s p \<Longrightarrow> contains (c # s) p"
  by simp

lemma contains_prefix: "startswith r p \<Longrightarrow> contains (r @ s) p"
proof -
  assume "startswith r p"
  then obtain b where "r = p @ b" by (auto simp: startswith_iff)
  then have "r @ s = [] @ p @ (b @ s)" by simp
  then show ?thesis unfolding contains_iff by blast
qed

text \<open>A substitution for a pattern that starts with a dot and whose replacements start
  with \<open>.listen(\<close> keeps a \<open>.listen(\<close> that the text has.\<close>

lemma re_sub_keeps_listen:
  assumes "\<And>c x. m (c # x) \<noteq> None \<Longrightarrow> c = CHR ''.''"
    and "\<And>s r rest. m s = Some (r, rest) \<Longrightarrow> startswith r ''.listen(''"
    and "contains s ''.listen(''"
  shows "contains (re_sub m s) ''.listen(''"
  using assms
proof (induction m s rule: re_sub.induct)
  case (1 m)
  then show ?case by simp
next
  case (2 m c cs)
  have skip: "re_sub m (''listen('' @ b) = ''listen('' @ re_sub m b" for b
  proof (rule re_sub_skip)
    fix d x
    assume "d \<in> set ''listen(''"
    then have "d \<noteq> CHR ''.''" by auto
    with "2.prems"(1) [of d x] show "m (d # x) = None" by blast
  qed
  have copy: "contains (c # re_sub m cs) ''.listen(''"
    if ih: "contains cs ''.listen('' \<Longrightarrow> contains (re_sub m cs) ''.listen(''"
  proof (cases "startswith (c # cs) ''.listen(''")
    case True
    then obtain b where "c # cs = ''.listen('' @ b" by (auto simp: startswith_iff)
    then have c: "c = CHR ''.''" and cs: "cs = ''listen('' @ b" by simp_all
    have "c # re_sub m cs = ''.listen('' @ re_sub m b"
      unfolding c cs skip by simp
    then show ?thesis by (simp add: startswith_append contains_prefix)
  next
    case False
    with "2.prems"(3) have "contains cs ''.listen(''"
      using contains.simps(2) by blast
    with ih show ?thesis by (rule_tac contains_Cons) blast
  qed
  show ?case
  proof (cases "m (c # cs)")
    case None
    have "contains (c # re_sub m cs) ''.listen(''"
      using "2.IH"(1) [OF None] "2.prems"(1,2) by (intro copy) blast
    with None show ?thesis by (simp add: re_sub_None)
  next
    case (Some x)
    obtain r rest where x: "x = (r, rest)" by (cases x)
    show ?thesis
    proof (cases "length rest \<le> length cs")
      case True
      from "2.prems"(2) Some x have "startswith r ''.listen(''" by blast
      then have "contains (r @ re_sub m rest) ''.listen(''" by (rule contains_prefix)
      with Some x True show ?thesis by (simp add: re_sub_Some)
    next
      case False
      have "contains (c # re_sub m cs) ''.listen(''"
        using "2.IH"(3) [OF Some x [symmetric] False] "2.prems"(1,2) by (intro copy) blast
      with Some x False show ?thesis by (simp add: re_sub.simps)
    qed
  qed
qed

lemma rewrite_port_keeps_listen:
  "contains c ''.listen('' \<Longrightarrow> contains (rewrite_port c) ''.listen(''"
  using re_sub_keeps_listen [of listen_bare c] re_sub_keeps_listen [of listen_env c]
    listen_bare_dot listen_env_dot listen_bare_repl listen_env_repl
  by (auto simp: rewrite_port_def)

lemma listen_block_has_listen: "contains listen_block ''.listen(''"
  by code_simp

text \<open>A text that already holds the listener block is not given it again.\<close>

lemma nodejs_main_text_block:
  "contains c listen_block \<Longrightarrow> nodejs_main_text c = (rewrite_port c, [])"
proof -
  assume "contains c listen_block"
  then have "contains c ''.listen(''"
    using listen_block_has_listen by (rule contains_trans)
  then have "contains (rewrite_port c) ''.listen(''" by (rule rewrite_port_keeps_listen)
  then show ?thesis by (simp add: nodejs_main_text_def Let_def)
qed
subsection \<open>Reading after writing\<close>

lemma lookup_append: "lookup (t @ [x]) n = (case lookup t n of None \<Rightarrow> (if name x = n then Some x else None) | Some y \<Rightarrow> Some y)"
  by (induction t) (simp_all add: lookup_def)

lemma lookup_overwrite_same:
  "lookup (map (\<lambda>x. if name x = n then File n c z else x) t) n
     = map_option (\<lambda>x. File n c z) (lookup t n)"
  by (induction t) (simp_all add: lookup_def)

lemma lookup_overwrite_other:
  "n' \<noteq> n \<Longrightarrow> lookup (map (\<lambda>x. if name x = n then File n c z else x) t) n' = lookup t n'"
  by (induction t) (simp_all add: lookup_def)

lemma write_file_read_same:
  "write_file t n c = Inr t' \<Longrightarrow> read_file t' n = Inr c"
  by (auto simp: write_file_def read_file_def lookup_append lookup_overwrite_same
      split: option.splits node.splits)

lemma write_file_lookup_other:
  "write_file t n c = Inr t' \<Longrightarrow> n' \<noteq> n \<Longrightarrow> lookup t' n' = lookup t n'"
  by (auto simp: write_file_def lookup_append lookup_overwrite_other
      split: option.splits node.splits)

lemma write_file_over_file:
  "read_file t n = Inr c0 \<Longrightarrow> \<exists>t'. write_file t n c = Inr t'"
  by (auto simp: write_file_def read_file_def split: option.splits node.splits)

lemma write_and_note_over_file:
  assumes "read_file t n = Inr c0"
  shows "fst (write_and_note n c note (t, fixes)) = None
     \<and> read_file (fst (snd (write_and_note n c note (t, fixes)))) n = Inr c
     \<and> snd (snd (write_and_note n c note (t, fixes))) = fixes @ [note]"
proof -
  from write_file_over_file [OF assms] obtain t' where w: "write_file t n c = Inr t'" by blast
  from write_file_read_same [OF w] w show ?thesis by (simp add: write_and_note_def)
qed
lemma listen_bare_starts: "listen_bare s \<noteq> None \<Longrightarrow> startswith s ''.listen(''"
  by (auto simp: listen_bare_def lit_def split: if_splits)

lemma listen_env_starts: "listen_env s \<noteq> None \<Longrightarrow> startswith s ''.listen(''"
  by (auto simp: listen_env_def lit_def split: if_splits)

lemma re_search_contains:
  "(\<And>s. m s \<noteq> None \<Longrightarrow> startswith s p) \<Longrightarrow> re_search m s \<Longrightarrow> contains s p"
proof (induction s)
  case Nil
  then show ?case by simp
next
  case (Cons c cs)
  show ?case
  proof (cases "m (c # cs)")
    case None
    with Cons.prems(2) have "re_search m cs" by simp
    with Cons.IH Cons.prems(1) have "contains cs p" by blast
    then show ?thesis by simp
  next
    case (Some x)
    with Cons.prems(1) [of "c # cs"] have "startswith (c # cs) p" by simp
    then show ?thesis using contains.simps(2) by blast
  qed
qed

lemma rewrite_port_without_listen:
  "\<not> contains c ''.listen('' \<Longrightarrow> rewrite_port c = c"
  using re_search_contains [of listen_bare "''.listen(''" c]
    re_search_contains [of listen_env "''.listen(''" c] listen_bare_starts listen_env_starts
  by (auto simp: rewrite_port_def)

text \<open>Applied to its own result, the Node.js rule never appends the listener block.\<close>

lemma nodejs_main_text_twice:
  "snd (nodejs_main_text (fst (nodejs_main_text c))) = []"
proof (cases "\<not> contains (rewrite_port c) ''.listen('' \<and> contains (rewrite_port c) ''createServer''")
  case True
  then have "fst (nodejs_main_text c) = rewrite_port c @ listen_block"
    by (simp add: nodejs_main_text_def Let_def)
  moreover have "contains (rewrite_port c @ listen_block) listen_block"
    unfolding contains_iff by (metis append_Nil2)
  ultimately show ?thesis by (simp add: nodejs_main_text_block)
next
  case False
  then have f: "fst (nodejs_main_text c) = rewrite_port c"
    by (auto simp: nodejs_main_text_def Let_def)
  show ?thesis
  proof (cases "contains (rewrite_port c) ''.listen(''")
    case True
    then have "contains (rewrite_port (rewrite_port c)) ''.listen(''"
      by (rule rewrite_port_keeps_listen)
    then show ?thesis unfolding f by (simp add: nodejs_main_text_def Let_def)
  next
    case no: False
    with False have "\<not> contains (rewrite_port c) ''createServer''" by blast
    moreover from no have "rewrite_port (rewrite_port c) = rewrite_port c"
      by (rule rewrite_port_without_listen)
    ultimately show ?thesis unfolding f by (simp add: nodejs_main_text_def Let_def)
  qed
qed

text \<open>The Node.js rule in terms of the text it is given: the listener block is appended
  exactly to a text without \<open>.listen(\<close> that holds \<open>createServer\<close>, and such a text
  is otherwise left as it is.\<close>

lemma nodejs_main_text_appends_iff:
  "snd (nodejs_main_text c) \<noteq> [] \<longleftrightarrow> \<not> contains c ''.listen('' \<and> contains c ''createServer''"
proof
  assume "snd (nodejs_main_text c) \<noteq> []"
  then have g: "\<not> contains (rewrite_port c) ''.listen(''" "contains (rewrite_port c) ''createServer''"
    by (auto simp: nodejs_main_text_def Let_def split: if_splits)
  from g(1) have n: "\<not> contains c ''.listen(''"
    using rewrite_port_keeps_listen by blast
  then have "rewrite_port c = c" by (rule rewrite_port_without_listen)
  with g(2) n show "\<not> contains c ''.listen('' \<and> contains c ''createServer''" by simp
next
  assume a: "\<not> contains c ''.listen('' \<and> contains c ''createServer''"
  then have "rewrite_port c = c" by (simp add: rewrite_port_without_listen)
  with a show "snd (nodejs_main_text c) \<noteq> []"
    by (simp add: nodejs_main_text_def Let_def)
qed

lemma nodejs_main_text_appended:
  assumes "\<not> contains c ''.listen(''" "contains c ''createServer''"
  shows "nodejs_main_text c = (c @ listen_block, [''Added proper port binding to Node.js app''])"
proof -
  from assms(1) have "rewrite_port c = c" by (rule rewrite_port_without_listen)
  with assms show ?thesis by (simp add: nodejs_main_text_def Let_def)
qed

text \<open>A pattern without a line feed that is found in a text followed by a line feed and
  a block is found in the text or in the block.\<close>

lemma contains_append_newline:
  assumes "contains (c @ CHR 0x0A # blk) p" and "CHR 0x0A \<notin> set p"
  shows "contains c p \<or> contains blk p"
proof -
  from assms(1) obtain a b where e: "c @ CHR 0x0A # blk = a @ p @ b"
    unfolding contains_iff by blast
  then consider us where "c = a @ us" "us @ CHR 0x0A # blk = p @ b"
    | us where "c @ us = a" "CHR 0x0A # blk = us @ p @ b"
    unfolding append_eq_append_conv2 by blast
  then show ?thesis
  proof cases
    case 1
    from 1(2) consider vs where "us = p @ vs"
      | vs where "us @ vs = p" "CHR 0x0A # blk = vs @ b"
      unfolding append_eq_append_conv2 by blast
    then show ?thesis
    proof cases
      case 1
      with \<open>c = a @ us\<close> have "c = a @ p @ vs" by simp
      then show ?thesis unfolding contains_iff by blast
    next
      case 2
      show ?thesis
      proof (cases vs)
        case Nil
        with 2(1) \<open>c = a @ us\<close> have "c = a @ p @ []" by simp
        then show ?thesis unfolding contains_iff by blast
      next
        case (Cons v vs')
        with 2(2) have "v = CHR 0x0A" by simp
        with Cons 2(1) have "CHR 0x0A \<in> set p" by auto
        with assms(2) show ?thesis by simp
      qed
    qed
  next
    case 2
    show ?thesis
    proof (cases us)
      case Nil
      with 2(2) have "p = [] \<or> (\<exists>p'. p = CHR 0x0A # p')"
        by (cases p) auto
      with assms(2) have "p = []" by auto
      then have "c = c @ p @ []" by simp
      then show ?thesis unfolding contains_iff by blast
    next
      case (Cons u us')
      with 2(2) have "blk = us' @ p @ b" by simp
      then show ?thesis unfolding contains_iff by blast
    qed
  qed
qed

lemma contains_append_left: "contains c p \<Longrightarrow> contains (c @ d) p"
  unfolding contains_iff by (metis append.assoc)

lemma startup_block_parts:
  "startup_block = CHR 0x0A # tl startup_block"
  \<open>\<not> contains (tl startup_block) ''app.run(''\<close>
  \<open>\<not> contains (tl startup_block) ''uvicorn.run(''\<close>
  \<open>\<not> contains (tl startup_block) ''.serve_forever()''\<close>
  by code_simp+

text \<open>Whenever the Python rule appends its block, the rule applied to the result appends
  the block again.\<close>

lemma startup_text_again:
  assumes "snd (startup_text c) \<noteq> []"
  shows "startup_text c = (c @ startup_block, [''Added basic server startup code''])"
    and "startup_text (c @ startup_block)
           = (c @ startup_block @ startup_block, [''Added basic server startup code''])"
proof -
  from assms have g: \<open>contains c ''__name__ == "__main__"''\<close>
    \<open>\<not> contains c ''app.run(''\<close> \<open>\<not> contains c ''uvicorn.run(''\<close>
    \<open>\<not> contains c ''.serve_forever()''\<close>
    by (auto simp: startup_text_def split: if_splits)
  then show "startup_text c = (c @ startup_block, [''Added basic server startup code''])"
    by (simp add: startup_text_def)
  have m: \<open>contains (c @ startup_block) ''__name__ == "__main__"''\<close>
    using g(1) by (rule contains_append_left)
  have n: "\<not> contains (c @ startup_block) p"
    if "\<not> contains c p" "\<not> contains (tl startup_block) p" "CHR 0x0A \<notin> set p" for p
    using contains_append_newline [of c "tl startup_block" p] that startup_block_parts(1)
    by auto
  have 1: \<open>\<not> contains (c @ startup_block) ''app.run(''\<close>
    by (rule n [OF g(2) startup_block_parts(2)]) simp
  have 2: \<open>\<not> contains (c @ startup_block) ''uvicorn.run(''\<close>
    by (rule n [OF g(3) startup_block_parts(3)]) simp
  have 3: \<open>\<not> contains (c @ startup_block) ''.serve_forever()''\<close>
    by (rule n [OF g(4) startup_block_parts(4)]) simp
  from m 1 2 3 show "startup_text (c @ startup_block)
           = (c @ startup_block @ startup_block, [''Added basic server startup code''])"
    by (simp add: startup_text_def)
qed

text \<open>
  C4 (as amended). No rule looks for a marker in its target. With a report that lists no
  environment file, the environment-file rule overwrites \<open>.env\<close> with its text whatever
  the file holds, and adds its ledger entry; with a report that holds a
  \<open>hardcoded_config\<close> issue, the configuration-guide rule does the same to
  \<open>DEPLOYMENT_NOTES.md\<close>. The Node.js rule appends its listener block exactly to a text
  that has no \<open>.listen(\<close> and has \<open>createServer\<close>; the block holds \<open>.listen(\<close>,
  so a text that carries the block is not given it again and the rule applied to its own
  result never appends the block. The Python rule appends its block exactly to a text
  that has \<open>__name__ == "__main__"\<close> and none of \<open>app.run(\<close>, \<open>uvicorn.run(\<close>
  and \<open>.serve_forever()\<close>; the block holds the first and none of the others, so
  whenever the rule appends the block, the rule applied to the result appends it again.
\<close>

theorem C4_block_rules:
  \<open>(environment_files a = [] \<and> read_file t ''.env'' = Inr c0 \<longrightarrow>
      fst (fix_environment_config a (t, fixes)) = None
      \<and> read_file (fst (snd (fix_environment_config a (t, fixes)))) ''.env'' = Inr env_content
      \<and> snd (snd (fix_environment_config a (t, fixes)))
          = fixes @ [''Created .env file with deployment configuration''])
   \<and> (filter (\<lambda>i. issue_type i = ''hardcoded_config'') (potential_issues a) \<noteq> []
      \<and> read_file t ''DEPLOYMENT_NOTES.md'' = Inr c1 \<longrightarrow>
      fst (fix_hardcoded_configs a (t, fixes)) = None
      \<and> read_file (fst (snd (fix_hardcoded_configs a (t, fixes)))) ''DEPLOYMENT_NOTES.md''
          = Inr (guide_content (filter (\<lambda>i. issue_type i = ''hardcoded_config'') (potential_issues a)))
      \<and> snd (snd (fix_hardcoded_configs a (t, fixes)))
          = fixes @ [''Created deployment configuration guide''])
   \<and> (snd (nodejs_main_text c) \<noteq> []
        \<longleftrightarrow> \<not> contains c ''.listen('' \<and> contains c ''createServer'')
   \<and> (snd (nodejs_main_text c) \<noteq> [] \<longrightarrow>
        nodejs_main_text c = (c @ listen_block, [''Added proper port binding to Node.js app'']))
   \<and> (snd (nodejs_main_text c) = [] \<longrightarrow> fst (nodejs_main_text c) = rewrite_port c)
   \<and> (contains c' listen_block \<longrightarrow> snd (nodejs_main_text c') = [])
   \<and> snd (nodejs_main_text (fst (nodejs_main_text c))) = []
   \<and> (snd (startup_text p) \<noteq> []
        \<longleftrightarrow> contains p ''__name__ == "__main__"''
            \<and> \<not> contains p ''app.run('' \<and> \<not> contains p ''uvicorn.run(''
            \<and> \<not> contains p ''.serve_forever()'')
   \<and> (snd (startup_text p) \<noteq> [] \<longrightarrow>
        startup_text p = (p @ startup_block, [''Added basic server startup code''])
        \<and> startup_text (p @ startup_block)
            = (p @ startup_block @ startup_block, [''Added basic server startup code'']))\<close>
proof -
  have 1: "environment_files a = [] \<and> read_file t ''.env'' = Inr c0 \<longrightarrow>
      fst (fix_environment_config a (t, fixes)) = None
      \<and> read_file (fst (snd (fix_environment_config a (t, fixes)))) ''.env'' = Inr env_content
      \<and> snd (snd (fix_environment_config a (t, fixes)))
          = fixes @ [''Created .env file with deployment configuration'']"
    using write_and_note_over_file [of t "''.env''" c0 env_content
        "''Created .env file with deployment configuration''" "fixes"]
    by (simp add: fix_environment_config_def)
  have 2: "filter (\<lambda>i. issue_type i = ''hardcoded_config'') (potential_issues a) \<noteq> []
      \<and> read_file t ''DEPLOYMENT_NOTES.md'' = Inr c1 \<longrightarrow>
      fst (fix_hardcoded_configs a (t, fixes)) = None
      \<and> read_file (fst (snd (fix_hardcoded_configs a (t, fixes)))) ''DEPLOYMENT_NOTES.md''
          = Inr (guide_content (filter (\<lambda>i. issue_type i = ''hardcoded_config'') (potential_issues a)))
      \<and> snd (snd (fix_hardcoded_configs a (t, fixes)))
          = fixes @ [''Created deployment configuration guide'']"
    using write_and_note_over_file [of t "''DEPLOYMENT_NOTES.md''" c1
        "guide_content (filter (\<lambda>i. issue_type i = ''hardcoded_config'') (potential_issues a))"
        "''Created deployment configuration guide''" "fixes"]
    by (simp add: fix_hardcoded_configs_def Let_def)
  have 3: "snd (nodejs_main_text c) \<noteq> []
        \<longleftrightarrow> \<not> contains c ''.listen('' \<and> contains c ''createServer''"
    by (rule nodejs_main_text_appends_iff)
  have 4: "snd (nodejs_main_text c) \<noteq> [] \<longrightarrow>
        nodejs_main_text c = (c @ listen_block, [''Added proper port binding to Node.js app''])"
    using nodejs_main_text_appended [of c] unfolding 3 by blast
  have 5: "snd (nodejs_main_text c) = [] \<longrightarrow> fst (nodejs_main_text c) = rewrite_port c"
    by (auto simp: nodejs_main_text_def Let_def split: if_splits)
  have 6: "contains c' listen_block \<longrightarrow> snd (nodejs_main_text c') = []"
    by (simp add: nodejs_main_text_block)
  have 7: "snd (nodejs_main_text (fst (nodejs_main_text c))) = []"
    by (rule nodejs_main_text_twice)
  have 8: \<open>snd (startup_text p) \<noteq> []
        \<longleftrightarrow> contains p ''__name__ == "__main__"''
            \<and> \<not> contains p ''app.run('' \<and> \<not> contains p ''uvicorn.run(''
            \<and> \<not> contains p ''.serve_forever()''\<close>
    by (simp add: startup_text_def)
  have 9: "snd (startup_text p) \<noteq> [] \<longrightarrow>
        startup_text p = (p @ startup_block, [''Added basic server startup code''])
        \<and> startup_text (p @ startup_block)
            = (p @ startup_block @ startup_block, [''Added basic server startup code''])"
    using startup_text_again [of p] by blast
  show ?thesis
    by (intro conjI) (fact 1 2 3 4 5 6 7 8 9)+
qed

lemma startup_text_guarded:
  "startup_text guarded_main = (guarded_main @ startup_block, [''Added basic server startup code''])"
  "startup_text (guarded_main @ startup_block)
     = (guarded_main @ startup_block @ startup_block, [''Added basic server startup code''])"
  "contains (guarded_main @ startup_block) ''# Added by deployment fix''"
  "startup_block \<noteq> []"
  by code_simp+

lemma nodejs_main_text_examples:
  "\<not> contains ''createServer()'' ''.listen(''" "contains ''createServer()'' ''createServer''"
  "contains ''createServer() // Added by deployment fix'' ''// Added by deployment fix''"
  "snd (nodejs_main_text ''createServer() // Added by deployment fix'') \<noteq> []"
  "snd (nodejs_main_text ''app.listen(3000)'') = []"
  "snd (nodejs_main_text ''app.get()'') = []"
  by code_simp+

theorem C4_block_rules_witness:
  "environment_files env_dir_report = []
   \<and> read_file [File ''.env'' env_content (length env_content),
                 File ''DEPLOYMENT_NOTES.md'' ''notes'' 5] ''.env'' = Inr env_content
   \<and> read_file (fst (snd (fix_environment_config env_dir_report
          ([File ''.env'' env_content (length env_content),
            File ''DEPLOYMENT_NOTES.md'' ''notes'' 5], [])))) ''.env'' = Inr env_content
   \<and> snd (snd (fix_environment_config env_dir_report
          ([File ''.env'' env_content (length env_content),
            File ''DEPLOYMENT_NOTES.md'' ''notes'' 5], [])))
       = [''Created .env file with deployment configuration'']
   \<and> filter (\<lambda>i. issue_type i = ''hardcoded_config'') (potential_issues env_dir_report) \<noteq> []
   \<and> read_file [File ''.env'' env_content (length env_content),
                 File ''DEPLOYMENT_NOTES.md'' ''notes'' 5] ''DEPLOYMENT_NOTES.md'' = Inr ''notes''
   \<and> snd (snd (fix_hardcoded_configs env_dir_report
          ([File ''.env'' env_content (length env_content),
            File ''DEPLOYMENT_NOTES.md'' ''notes'' 5], [])))
       = [''Created deployment configuration guide'']
   \<and> \<not> contains ''createServer()'' ''.listen(''
   \<and> contains ''createServer()'' ''createServer''
   \<and> nodejs_main_text ''createServer()''
       = (''createServer()'' @ listen_block, [''Added proper port binding to Node.js app''])
   \<and> contains (''createServer()'' @ listen_block) listen_block
   \<and> snd (nodejs_main_text (''createServer()'' @ listen_block)) = []
   \<and> snd (nodejs_main_text ''app.listen(3000)'') = []
   \<and> snd (nodejs_main_text ''app.get()'') = []
   \<and> contains ''createServer() // Added by deployment fix'' ''// Added by deployment fix''
   \<and> snd (nodejs_main_text ''createServer() // Added by deployment fix'') \<noteq> []
   \<and> snd (startup_text guarded_main) \<noteq> []
   \<and> startup_text (guarded_main @ startup_block)
       = (guarded_main @ startup_block @ startup_block, [''Added basic server startup code''])"
proof -
  let ?t = "[File ''.env'' env_content (length env_content),
             File ''DEPLOYMENT_NOTES.md'' ''notes'' 5]"
  have e: "environment_files env_dir_report = []"
    "filter (\<lambda>i. issue_type i = ''hardcoded_config'') (potential_issues env_dir_report) \<noteq> []"
    by (simp_all add: env_dir_report_def)
  have r: "read_file ?t ''.env'' = Inr env_content"
    "read_file ?t ''DEPLOYMENT_NOTES.md'' = Inr ''notes''"
    by (simp_all add: read_file_def lookup_def)
  have b: "contains (''createServer()'' @ listen_block) listen_block"
    unfolding contains_iff by (metis append_Nil2)
  have s: "snd (startup_text guarded_main) \<noteq> []"
    by (simp add: startup_text_guarded(1))
  note x = nodejs_main_text_examples
  note th = C4_block_rules [of env_dir_report ?t env_content "[]" "''notes''" "''createServer()''"
      "''createServer()'' @ listen_block" guarded_main, unfolded append_Nil]
  from th e r b s x(1,2) have
    "read_file (fst (snd (fix_environment_config env_dir_report (?t, [])))) ''.env'' = Inr env_content"
    "snd (snd (fix_environment_config env_dir_report (?t, [])))
       = [''Created .env file with deployment configuration'']"
    "snd (snd (fix_hardcoded_configs env_dir_report (?t, [])))
       = [''Created deployment configuration guide'']"
    "nodejs_main_text ''createServer()''
       = (''createServer()'' @ listen_block, [''Added proper port binding to Node.js app''])"
    "snd (nodejs_main_text (''createServer()'' @ listen_block)) = []"
    "startup_text (guarded_main @ startup_block)
       = (guarded_main @ startup_block @ startup_block, [''Added basic server startup code''])"
    by blast+
  with e r b s x show ?thesis by blast
qed

theorem C4_block_appended_twice_counterexample:
  "contains (guarded_main @ startup_block) ''# Added by deployment fix''
   \<and> fix_python_main_file no_frameworks ''app.py'' ([File ''app.py'' guarded_main 38], [])
     = ([File ''app.py'' (guarded_main @ startup_block) (length (guarded_main @ startup_block))],
        [''Added basic server startup code''])
   \<and> fix_python_main_file no_frameworks ''app.py''
       ([File ''app.py'' (guarded_main @ startup_block) (length (guarded_main @ startup_block))], [])
     = ([File ''app.py'' (guarded_main @ startup_block @ startup_block)
           (length (guarded_main @ startup_block @ startup_block))],
        [''Added basic server startup code''])"
  by (simp add: startup_text_guarded fix_python_main_file_def no_frameworks_def read_file_def
      write_file_def lookup_def)

end
